theory Spec2Isabelle
  imports Complex_Main "HOL-Library.Multiset" "HOL-Library.AList"
begin

section \<open>JavaScript numbers\<close>

text \<open>
  The TypeScript sources compute with \<open>number\<close>, the binary64 format of IEEE 754.
  A finite double is modelled by the rational it stands for. Every division and
  multiplication of the source, and every addition or subtraction of operands that need
  not be integers, rounds its exact result to the nearest double, ties to the even
  mantissa; \<open>fl\<close> is that rounding. Counters (classes scheduled, attended, cancelled,
  minutes) are integers and modelled as \<open>int\<close>; sums and differences of integers are
  exact in doubles up to \<open>2 ^ 53\<close>. Where the source divides by a value that can be zero,
  the quotient is a \<open>jsnum\<close>, which keeps the three non-finite results of JavaScript's
  division apart. A field that need not hold an integer (the required percentage) is a
  rational; the values that the source can hold are the doubles among them. Overflow to
  an infinity beyond the largest finite double and the sign of zero are not modelled.
\<close>

text \<open>The number of binary digits of a positive integer.\<close>

function bitlen :: "int \<Rightarrow> int" where
  "bitlen n = (if n \<le> 0 then 0 else 1 + bitlen (n div 2))"
  by pat_completeness auto
termination
  by (relation "measure nat") auto

declare bitlen.simps [simp del]

definition pow2 :: "int \<Rightarrow> rat" where
  "pow2 e = (if 0 \<le> e then 2 ^ nat e else 1 / 2 ^ nat (- e))"

text \<open>
  The binary exponent of a rational other than 0: the \<open>e\<close> with
  \<open>2 ^ e \<le> \<bar>x\<bar> < 2 ^ (e + 1)\<close>. The difference of the bit lengths of numerator and
  denominator is that exponent or one more.
\<close>

definition exponentOf :: "rat \<Rightarrow> int" where
  "exponentOf x =
     (let (p, q) = quotient_of \<bar>x\<bar>;
          e = bitlen p - bitlen q
      in if pow2 e \<le> \<bar>x\<bar> then e else e - 1)"

definition roundHalfEven :: "rat \<Rightarrow> int" where
  "roundHalfEven q =
     (let f = \<lfloor>q\<rfloor>; r = q - of_int f
      in if r < 1 / 2 then f
         else if 1 / 2 < r then f + 1
         else if even f then f else f + 1)"

text \<open>
  Rounding to the nearest double: 53 binary digits of mantissa from exponent \<open>- 1022\<close>
  up, and the fixed spacing \<open>2 ^ - 1074\<close> of the subnormal numbers below.
\<close>

definition fl :: "rat \<Rightarrow> rat" where
  "fl x =
     (if x = 0 then 0
      else
        (let e = max (exponentOf x) (- 1022);
             ulp = pow2 (e - 52)
         in of_int (roundHalfEven (x / ulp)) * ulp))"

datatype jsnum = Num rat | PosInf | NegInf | NaN

text \<open>\<open>a / b\<close> on finite operands.\<close>

definition js_div :: "rat \<Rightarrow> rat \<Rightarrow> jsnum" where
  "js_div a b =
     (if b \<noteq> 0 then Num (fl (a / b))
      else if a = 0 then NaN
      else if 0 < a then PosInf else NegInf)"

text \<open>\<open>x * c\<close> and \<open>x / c\<close> for a finite constant \<open>c\<close>.\<close>

fun js_times :: "jsnum \<Rightarrow> rat \<Rightarrow> jsnum" where
  "js_times (Num r) c = Num (fl (r * c))"
| "js_times PosInf c = (if c = 0 then NaN else if 0 < c then PosInf else NegInf)"
| "js_times NegInf c = (if c = 0 then NaN else if 0 < c then NegInf else PosInf)"
| "js_times NaN c = NaN"

fun js_over :: "jsnum \<Rightarrow> rat \<Rightarrow> jsnum" where
  "js_over (Num r) c = js_div r c"
| "js_over PosInf c = (if 0 \<le> c then PosInf else NegInf)"
| "js_over NegInf c = (if 0 \<le> c then NegInf else PosInf)"
| "js_over NaN c = NaN"

text \<open>Comparisons against a finite number; every comparison with \<open>NaN\<close> is false.\<close>

fun js_lt :: "jsnum \<Rightarrow> rat \<Rightarrow> bool" where
  "js_lt (Num r) q = (r < q)"
| "js_lt PosInf q = False"
| "js_lt NegInf q = True"
| "js_lt NaN q = False"

fun js_ge :: "jsnum \<Rightarrow> rat \<Rightarrow> bool" where
  "js_ge (Num r) q = (q \<le> r)"
| "js_ge PosInf q = True"
| "js_ge NegInf q = False"
| "js_ge NaN q = False"

text \<open>
  \<open>Math.round\<close> rounds a double to the nearest integer, halves towards plus infinity,
  and \<open>Math.ceil\<close> is the ceiling; both are exact.
\<close>

definition Math_round :: "rat \<Rightarrow> int" where
  "Math_round x = \<lfloor>x + 1 / 2\<rfloor>"

fun js_round :: "jsnum \<Rightarrow> jsnum" where
  "js_round (Num r) = Num (of_int (Math_round r))"
| "js_round x = x"

text \<open>\<open>Math.round(x * 100) / 100\<close> and \<open>Math.round(x * 10) / 10\<close>.\<close>

definition round2 :: "rat \<Rightarrow> rat" where
  "round2 x = fl (of_int (Math_round (fl (x * 100))) / 100)"

definition round1 :: "rat \<Rightarrow> rat" where
  "round1 x = fl (of_int (Math_round (fl (x * 10))) / 10)"

definition js_round2 :: "jsnum \<Rightarrow> jsnum" where
  "js_round2 x = js_over (js_round (js_times x 100)) 100"

section \<open>Data model (types/attendance)\<close>

record Course =
  id' :: string
  name :: string
  requiredAttendancePercentage :: rat
  totalClassesScheduled :: int
  classesAttended :: int
  classesCancelled :: int

record AttendanceStatus =
  status_courseId :: string
  status_courseName :: string
  status_classesAttended :: int
  totalClassesHeld :: int
  currentPercentage :: rat
  classesNeededFor75Percent :: int
  remainingClassesScheduled :: int
  canSkip :: int
  isAtRisk :: bool

section \<open>AttendanceCalculator\<close>

definition calculateAttendanceStatus :: "Course \<Rightarrow> AttendanceStatus" where
  "calculateAttendanceStatus course =
     (let held = totalClassesScheduled course - classesCancelled course;
          percentage = (if 0 < held
                        then fl (fl (of_int (classesAttended course) / of_int held) * 100)
                        else 0);
          requiredClasses =
            \<lceil>fl (fl (requiredAttendancePercentage course / 100) * of_int held)\<rceil>;
          needed = max 0 (requiredClasses - classesAttended course);
          remaining = totalClassesScheduled course - held;
          maxSkippableClasses = classesAttended course - requiredClasses;
          skippable = max 0 maxSkippableClasses;
          futureClassesNeeded = needed;
          atRisk = (fl (of_int remaining * fl (8 / 10)) < of_int futureClassesNeeded)
      in \<lparr> status_courseId = id' course,
           status_courseName = name course,
           status_classesAttended = classesAttended course,
           totalClassesHeld = held,
           currentPercentage = round2 percentage,
           classesNeededFor75Percent = needed,
           remainingClassesScheduled = remaining,
           canSkip = skippable,
           isAtRisk = atRisk \<rparr>)"

definition isAttendanceRecoverable :: "Course \<Rightarrow> int \<Rightarrow> bool" where
  "isAttendanceRecoverable course remainingClassesInSchedule =
     (let totalFutureClasses =
            totalClassesScheduled course - classesCancelled course + remainingClassesInSchedule;
          maxPossibleAttended = classesAttended course + remainingClassesInSchedule;
          maxPossiblePercentage =
            js_times (js_div (of_int maxPossibleAttended) (of_int totalFutureClasses)) 100
      in js_ge maxPossiblePercentage (requiredAttendancePercentage course))"

section \<open>Strings\<close>

text \<open>
  Template literals print integers in decimal. \<open>showTenths t\<close> is the text of the number
  \<open>t / 10\<close>: the double nearest to \<open>t / 10\<close>, which \<open>Math.round(x * 10) / 10\<close> is for
  \<open>t = Math.round(x * 10)\<close>, prints with the digits of \<open>t / 10\<close> (exponent notation, used
  from \<open>1e21\<close> on, is not modelled).
\<close>

definition digitChar :: "nat \<Rightarrow> char" where
  "digitChar n = ''0123456789'' ! n"

fun showNat :: "nat \<Rightarrow> string" where
  "showNat n = (if n < 10 then [digitChar n] else showNat (n div 10) @ [digitChar (n mod 10)])"

declare showNat.simps [simp del]

definition showInt :: "int \<Rightarrow> string" where
  "showInt i = (if i < 0 then CHR ''-'' # showNat (nat (- i)) else showNat (nat i))"

definition showTenths :: "int \<Rightarrow> string" where
  "showTenths t =
     (let a = nat \<bar>t\<bar>
      in (if t < 0 then ''-'' else []) @ showNat (a div 10) @
         (if a mod 10 = 0 then [] else [CHR ''.'', digitChar (a mod 10)]))"

text \<open>\<open>${Math.round(minutes / 60 * 10) / 10}\<close>\<close>

definition hoursText :: "int \<Rightarrow> string" where
  "hoursText minutes = showTenths (Math_round (fl (fl (of_int minutes / 60) * 10)))"

fun join :: "string \<Rightarrow> string list \<Rightarrow> string" where
  "join sep [] = []"
| "join sep [x] = x"
| "join sep (x # y # ys) = x @ sep @ join sep (y # ys)"

fun splitOn :: "char \<Rightarrow> string \<Rightarrow> string list" where
  "splitOn sep [] = [[]]"
| "splitOn sep (c # cs) =
     (if c = sep then [] # splitOn sep cs
      else (case splitOn sep cs of
              w # ws \<Rightarrow> (c # w) # ws
            | [] \<Rightarrow> [[c]]))"

text \<open>
  \<open>Number\<close> is modelled on strings of decimal digits, which is what the two parts of a
  time \<open>"HH:MM"\<close> are. On any other string JavaScript's \<open>Number\<close> may yield \<open>NaN\<close> (and
  so does a missing part after the destructuring); the model does not represent that,
  and its value there carries no meaning.
\<close>

definition digitValue :: "char \<Rightarrow> int" where
  "digitValue c = of_char c - 48"

definition Number_js :: "string \<Rightarrow> int" where
  "Number_js s = foldl (\<lambda>n c. n * 10 + digitValue c) 0 s"

section \<open>ScheduleOptimizer\<close>

record ClassTime =
  startTime :: string
  endTime :: string
  courseId :: string
  location :: "string option"

record UserPreferences =
  minimizeCollegeDays :: bool
  maxGapBetweenClasses :: int
  priorityCourses :: "string list"
  minimumClassesPerDay :: int

record TimeGap =
  gap_start :: string
  gap_end :: string
  duration :: int

definition timeToMinutes :: "string \<Rightarrow> int" where
  "timeToMinutes time =
     (case map Number_js (splitOn CHR '':'' time) of
        hours # minutes # _ \<Rightarrow> hours * 60 + minutes
      | _ \<Rightarrow> 0)"

text \<open>
  \<open>[...classes].sort((a, b) => timeToMinutes(a.startTime) - timeToMinutes(b.startTime))\<close>:
  \<open>Array.prototype.sort\<close> is stable, and so is \<open>sort_key\<close>.
\<close>

definition sortByStartTime :: "ClassTime list \<Rightarrow> ClassTime list" where
  "sortByStartTime classes = sort_key (\<lambda>c. timeToMinutes (startTime c)) classes"

text \<open>The loop over \<open>i\<close> and \<open>i + 1\<close> of the sorted array.\<close>

fun gapsBetween :: "ClassTime list \<Rightarrow> TimeGap list" where
  "gapsBetween (current # following # rest) =
     (let currentEnd = endTime current;
          nextStart = startTime following;
          gapDuration = timeToMinutes nextStart - timeToMinutes currentEnd
      in (if 0 < gapDuration
          then [\<lparr> gap_start = currentEnd, gap_end = nextStart, duration = gapDuration \<rparr>]
          else []) @ gapsBetween (following # rest))"
| "gapsBetween [current] = []"
| "gapsBetween [] = []"

definition calculateTimeGaps :: "ClassTime list \<Rightarrow> TimeGap list" where
  "calculateTimeGaps classes =
     (if length classes \<le> 1 then [] else gapsBetween (sortByStartTime classes))"

definition calculateDayDuration :: "ClassTime list \<Rightarrow> int" where
  "calculateDayDuration classes =
     (case classes of
        [] \<Rightarrow> 0
      | [c] \<Rightarrow> timeToMinutes (endTime c) - timeToMinutes (startTime c)
      | _ \<Rightarrow>
          (let sortedClasses = sortByStartTime classes;
               firstClassStart = timeToMinutes (startTime (hd sortedClasses));
               lastClassEnd = timeToMinutes (endTime (last sortedClasses))
           in lastClassEnd - firstClassStart))"

text \<open>\<open>gaps.length > 0 ? Math.max(...gaps.map(g => g.duration)) : 0\<close>\<close>

definition maxDuration :: "TimeGap list \<Rightarrow> int" where
  "maxDuration gaps = (if gaps \<noteq> [] then Max (set (map duration gaps)) else 0)"

record Violations =
  violatesGapLimit :: bool
  violatesMinimumClasses :: bool
  maxGapDuration :: int
  reasons :: "string list"

definition violatesPreferences :: "ClassTime list \<Rightarrow> UserPreferences \<Rightarrow> Violations" where
  "violatesPreferences classes preferences =
     (let gaps = calculateTimeGaps classes;
          maxGap = maxDuration gaps;
          gapLimit = (maxGapBetweenClasses preferences < maxGap);
          minimumClasses = (int (length classes) < minimumClassesPerDay preferences)
      in \<lparr> violatesGapLimit = gapLimit,
           violatesMinimumClasses = minimumClasses,
           maxGapDuration = maxGap,
           reasons =
             (if gapLimit
              then [''Gap of '' @ hoursText maxGap @ '' hours exceeds limit of '' @
                    hoursText (maxGapBetweenClasses preferences) @ '' hours'']
              else []) @
             (if minimumClasses
              then [''Only '' @ showNat (length classes) @ '' classes, minimum is '' @
                    showInt (minimumClassesPerDay preferences)]
              else []) \<rparr>)"

definition calculateDayScore ::
  "ClassTime list \<Rightarrow> UserPreferences \<Rightarrow> string list \<Rightarrow> rat" where
  "calculateDayScore classes preferences mustAttendClasses =
     (if classes = [] then 0
      else
        (let score1 = of_int (int (length classes) * 10);
             mustAttendCount = length (filter (\<lambda>c. courseId c \<in> set mustAttendClasses) classes);
             score2 = score1 + of_int (int mustAttendCount * 20);
             gaps = calculateTimeGaps classes;
             totalGapTime = sum_list (map duration gaps);
             score3 = fl (score2 - fl (of_int totalGapTime / 60));
             maxGap = maxDuration gaps;
             score4 = (if maxGapBetweenClasses preferences < maxGap
                       then fl (score3 - 50) else score3);
             score5 = (if int (length classes) < minimumClassesPerDay preferences
                       then fl (score4 - 30) else score4);
             priorityCount =
               length (filter (\<lambda>c. courseId c \<in> set (priorityCourses preferences)) classes);
             score6 = fl (score5 + of_int (int priorityCount * 5))
         in round1 score6))"

text \<open>The \<open>for\<close> loop that tries each remaining optional class on top of the selection.\<close>

fun tryAdditions ::
  "UserPreferences \<Rightarrow> string list \<Rightarrow> ClassTime list \<Rightarrow> ClassTime list \<Rightarrow>
   ClassTime option \<times> rat \<Rightarrow> ClassTime option \<times> rat" where
  "tryAdditions preferences mustAttendClasses bestSelection [] best = best"
| "tryAdditions preferences mustAttendClasses bestSelection (optionalClass # rest)
     (bestAddition, bestNewScore) =
     (let testSelection = bestSelection @ [optionalClass];
          testScore = calculateDayScore testSelection preferences mustAttendClasses
      in tryAdditions preferences mustAttendClasses bestSelection rest
           (if bestNewScore < testScore then (Some optionalClass, testScore)
            else (bestAddition, bestNewScore)))"

text \<open>
  The \<open>while\<close> loop. \<open>remainingOptional.splice(remainingOptional.indexOf(bestAddition), 1)\<close>
  removes the chosen class; the chosen class is the first one that reaches the best
  score, so it is the first occurrence of its value and \<open>remove1\<close> removes it.
\<close>

function greedyLoop ::
  "UserPreferences \<Rightarrow> string list \<Rightarrow> ClassTime list \<Rightarrow> rat \<Rightarrow> string list \<Rightarrow>
   ClassTime list \<Rightarrow> ClassTime list \<times> rat \<times> string list" where
  "greedyLoop preferences mustAttendClasses bestSelection bestScore reasoning remainingOptional =
     (if remainingOptional = [] then (bestSelection, bestScore, reasoning)
      else
        (case tryAdditions preferences mustAttendClasses bestSelection remainingOptional
                (None, bestScore) of
           (Some bestAddition, bestNewScore) \<Rightarrow>
             (if bestScore < bestNewScore
              then
                (let selection = bestSelection @ [bestAddition];
                     violations = violatesPreferences selection preferences;
                     line =
                       (if violatesGapLimit violations \<or> violatesMinimumClasses violations
                        then ''Added '' @ courseId bestAddition @ '' despite '' @
                             join '', '' (reasons violations)
                        else ''Added optional class '' @ courseId bestAddition)
                 in greedyLoop preferences mustAttendClasses selection bestNewScore
                      (reasoning @ [line]) (remove1 bestAddition remainingOptional))
              else (bestSelection, bestScore, reasoning))
         | (None, bestNewScore) \<Rightarrow> (bestSelection, bestScore, reasoning)))"
  by pat_completeness auto
termination
proof (relation "measure (\<lambda>(p, m, sel, sc, r, remaining). length remaining)")
  show "wf (measure (\<lambda>(p, m, sel, sc, r, remaining). length remaining))"
    by simp
next
  fix preferences :: UserPreferences and mustAttendClasses :: "string list"
    and bestSelection :: "ClassTime list" and bestScore :: rat and reasoning :: "string list"
    and remainingOptional :: "ClassTime list" and bestNewScore :: rat
    and bestAddition :: ClassTime and x :: "ClassTime option"
    and xa :: "ClassTime list" and xb :: "string list"
  assume found: "(x, bestNewScore) =
      tryAdditions preferences mustAttendClasses bestSelection remainingOptional
        (None, bestScore)"
    and some: "x = Some bestAddition"
  have chosen: "fst (tryAdditions preferences mustAttendClasses bestSelection cs best) = Some b
      \<Longrightarrow> fst best = Some b \<or> b \<in> set cs" for cs best b
  proof (induction cs arbitrary: best)
    case Nil
    then show ?case by simp
  next
    case (Cons c cs)
    obtain a s where best: "best = (a, s)" by (cases best)
    from Cons.prems Cons.IH [of "if s < calculateDayScore (bestSelection @ [c]) preferences
        mustAttendClasses then (Some c, calculateDayScore (bestSelection @ [c]) preferences
        mustAttendClasses) else (a, s)"]
    show ?case
      by (auto simp: best Let_def split: if_splits)
  qed
  from found some
  have "fst (tryAdditions preferences mustAttendClasses bestSelection remainingOptional
              (None, bestScore)) = Some bestAddition"
    by (metis fst_conv)
  with chosen have member: "bestAddition \<in> set remainingOptional"
    by fastforce
  then have "0 < length remainingOptional"
    by (rule length_pos_if_in_set)
  with member show "((preferences, mustAttendClasses, xa, bestNewScore, xb,
               remove1 bestAddition remainingOptional),
              (preferences, mustAttendClasses, bestSelection, bestScore, reasoning,
               remainingOptional))
             \<in> measure (\<lambda>(p, m, sel, sc, r, remaining). length remaining)"
    by (simp add: length_remove1)
qed

declare greedyLoop.simps [simp del]

record Optimization =
  selectedClasses :: "ClassTime list"
  skippedClasses :: "ClassTime list"
  score :: rat
  opt_reasoning :: "string list"

definition optimizeClassSelection ::
  "ClassTime list \<Rightarrow> string list \<Rightarrow> UserPreferences \<Rightarrow> Optimization" where
  "optimizeClassSelection allDayClasses mustAttendClasses preferences =
     (let mustAttend = filter (\<lambda>c. courseId c \<in> set mustAttendClasses) allDayClasses;
          optional = filter (\<lambda>c. courseId c \<notin> set mustAttendClasses) allDayClasses;
          startScore = calculateDayScore mustAttend preferences mustAttendClasses;
          startReasoning = [''Including '' @ showNat (length mustAttend) @ '' required classes''];
          (bestSelection, bestScore, reasoning) =
             greedyLoop preferences mustAttendClasses mustAttend startScore startReasoning optional;
          skipped = filter (\<lambda>c. courseId c \<notin> set (map courseId bestSelection)) allDayClasses
      in \<lparr> selectedClasses = bestSelection,
           skippedClasses = skipped,
           score = bestScore,
           opt_reasoning =
             reasoning @
             (if skipped \<noteq> []
              then [''Skipping '' @ showNat (length skipped) @ '' classes: '' @
                    join '', '' (map courseId skipped)]
              else []) \<rparr>)"

record Decision =
  decision_shouldGo :: bool
  confidence :: int
  decision_reasoning :: "string list"

definition shouldGoToCollege ::
  "ClassTime list \<Rightarrow> string list \<Rightarrow> UserPreferences \<Rightarrow> Decision" where
  "shouldGoToCollege dayClasses mustAttendClasses preferences =
     (if dayClasses = []
      then \<lparr> decision_shouldGo = False, confidence = 100,
             decision_reasoning = [''No classes scheduled''] \<rparr>
      else
        (let mustAttendCount =
               length (filter (\<lambda>c. courseId c \<in> set mustAttendClasses) dayClasses)
         in if 0 < mustAttendCount
            then \<lparr> decision_shouldGo = True, confidence = 100,
                   decision_reasoning =
                     [showNat mustAttendCount @ '' required classes to maintain attendance''] \<rparr>
            else
              (let optimized = optimizeClassSelection dayClasses mustAttendClasses preferences;
                   selected = selectedClasses optimized;
                   violations = violatesPreferences selected preferences;
                   belowMinimum = (int (length selected) < minimumClassesPerDay preferences);
                   shouldGo1 = (if belowMinimum then False else True);
                   confidence1 = (if belowMinimum then 80 else 70);
                   reasoning1 =
                     (if belowMinimum
                      then [''Only '' @ showNat (length selected) @ '' classes, below minimum of '' @
                            showInt (minimumClassesPerDay preferences)]
                      else []);
                   shouldGo2 = (if violatesGapLimit violations then False else shouldGo1);
                   confidence2 = (if violatesGapLimit violations then 85 else confidence1);
                   reasoning2 =
                     (if violatesGapLimit violations
                      then reasoning1 @
                           [''Time gaps too large: '' @ join '', '' (reasons violations)]
                      else reasoning1);
                   totalCollegeTime = calculateDayDuration selected;
                   confidence3 = (if totalCollegeTime < 240 then confidence2 - 20 else confidence2);
                   reasoning3 =
                     (if totalCollegeTime < 240
                      then reasoning2 @
                           [''Only '' @ hoursText totalCollegeTime @
                            '' hours at college vs 4 hours travel time'']
                      else reasoning2);
                   reasoning4 =
                     (if shouldGo2 \<and>
                         (violatesGapLimit violations \<or> violatesMinimumClasses violations)
                      then reasoning3 @
                           [''Going anyway due to attendance requirements or priority courses'']
                      else reasoning3)
               in \<lparr> decision_shouldGo = shouldGo2,
                    confidence = max 0 (min 100 confidence3),
                    decision_reasoning = reasoning4 \<rparr>)))"

section \<open>AttendanceCalculator.calculateDayImpact\<close>

text \<open>
  A JavaScript object used as a dictionary is an association list in insertion order:
  assigning to a key that is present replaces its value in place (\<open>AList.update\<close>).
  \<open>Object.keys\<close> and \<open>Object.values\<close> list the keys that are array indices first, in
  ascending numeric order, and the other keys after them in insertion order. The key
  \<open>__proto__\<close>, which JavaScript does not store as a property, is not modelled.
\<close>

definition isArrayIndex :: "string \<Rightarrow> bool" where
  "isArrayIndex s =
     (s \<noteq> [] \<and> list_all (\<lambda>c. c \<in> set ''0123456789'') s \<and>
      (s = ''0'' \<or> hd s \<noteq> CHR ''0'') \<and> Number_js s \<le> 4294967294)"

definition Object_entries :: "(string \<times> 'a) list \<Rightarrow> (string \<times> 'a) list" where
  "Object_entries obj =
     sort_key (\<lambda>(k, v). Number_js k) (filter (\<lambda>(k, v). isArrayIndex k) obj) @
     filter (\<lambda>(k, v). \<not> isArrayIndex k) obj"

definition Object_keys :: "(string \<times> 'a) list \<Rightarrow> string list" where
  "Object_keys obj = map fst (Object_entries obj)"

definition Object_values :: "(string \<times> 'a) list \<Rightarrow> 'a list" where
  "Object_values obj = map snd (Object_entries obj)"

record Impact =
  impact_currentPercentage :: rat
  afterAttending :: jsnum
  afterSkipping :: jsnum
  isRequired :: bool

text \<open>\<open>courses.find(c => c.id === courseId)\<close>\<close>

definition findCourse :: "Course list \<Rightarrow> string \<Rightarrow> Course option" where
  "findCourse courses cid = find (\<lambda>c. id' c = cid) courses"

definition dayImpactStep ::
  "Course list \<Rightarrow> (string \<times> int) list \<Rightarrow> (string \<times> Impact) list \<Rightarrow> ClassTime \<Rightarrow>
   (string \<times> Impact) list" where
  "dayImpactStep courses totalRemainingClasses impact classTime =
     (case findCourse courses (courseId classTime) of
        None \<Rightarrow> impact
      | Some course \<Rightarrow>
          (let currentStatus = calculateAttendanceStatus course;
               held = totalClassesScheduled course - classesCancelled course;
               remainingTotal = (case map_of totalRemainingClasses (id' course) of
                                   None \<Rightarrow> 0 | Some n \<Rightarrow> n);
               attending =
                 js_times (js_div (of_int (classesAttended course + 1)) (of_int (held + 1))) 100;
               skipping =
                 js_times (js_div (of_int (classesAttended course)) (of_int (held + 1))) 100;
               requiredClasses =
                 \<lceil>fl (fl (requiredAttendancePercentage course / 100) *
                      of_int (held + remainingTotal))\<rceil>;
               required = (classesAttended course < requiredClasses \<and>
                           classesAttended course + remainingTotal \<le> requiredClasses)
           in AList.update (courseId classTime)
                \<lparr> impact_currentPercentage = currentPercentage currentStatus,
                  afterAttending = js_round2 attending,
                  afterSkipping = js_round2 skipping,
                  isRequired = required \<rparr> impact))"

definition calculateDayImpact ::
  "Course list \<Rightarrow> ClassTime list \<Rightarrow> (string \<times> int) list \<Rightarrow> (string \<times> Impact) list" where
  "calculateDayImpact courses dayClasses totalRemainingClasses =
     foldl (dayImpactStep courses totalRemainingClasses) [] dayClasses"

section \<open>DataManager\<close>

record ScheduleOverride =
  override_date :: string
  classes :: "ClassTime list"
  reason :: "string option"

record AttendanceRecord =
  record_date :: string
  record_courseId :: string
  attended :: bool
  cancelled :: "bool option"
  record_reason :: "string option"

record DataManager =
  courses :: "Course list"
  weeklySchedule :: "string \<rightharpoonup> ClassTime list"
  scheduleOverrides :: "ScheduleOverride list"
  attendanceRecords :: "AttendanceRecord list"
  preferences :: UserPreferences

datatype error = TypeError | RangeError

text \<open>
  The calendar of the JavaScript runtime is a parameter \<open>getDay\<close>: \<open>getDay s\<close> is the
  result of \<open>new Date(s).getDay()\<close>, and \<open>None\<close> when \<open>new Date(s)\<close> is an invalid date
  (\<open>getDay()\<close> is \<open>NaN\<close> then, and \<open>toISOString()\<close> raises a \<open>RangeError\<close>).
\<close>

type_synonym calendar = "string \<Rightarrow> nat option"

text \<open>\<open>toLowerCase\<close> on the letters of ASCII.\<close>

definition toLowerCase :: "string \<Rightarrow> string" where
  "toLowerCase s =
     map (\<lambda>c. case map_of (zip ''ABCDEFGHIJKLMNOPQRSTUVWXYZ'' ''abcdefghijklmnopqrstuvwxyz'') c of
                None \<Rightarrow> c
              | Some l \<Rightarrow> l) s"

definition getCourse :: "DataManager \<Rightarrow> string \<Rightarrow> Course option" where
  "getCourse dm cid = find (\<lambda>c. id' c = cid) (courses dm)"

definition getAllCourses :: "DataManager \<Rightarrow> Course list" where
  "getAllCourses dm = courses dm"

definition getDaySchedule :: "DataManager \<Rightarrow> string \<Rightarrow> ClassTime list" where
  "getDaySchedule dm day =
     (case weeklySchedule dm (toLowerCase day) of None \<Rightarrow> [] | Some cs \<Rightarrow> cs)"

definition getScheduleOverride :: "DataManager \<Rightarrow> string \<Rightarrow> ScheduleOverride option" where
  "getScheduleOverride dm date = find (\<lambda>ov. override_date ov = date) (scheduleOverrides dm)"

text \<open>\<open>days[date.getDay()]\<close>; \<open>None\<close> is \<open>undefined\<close>.\<close>

definition getDayOfWeek :: "calendar \<Rightarrow> string \<Rightarrow> string option" where
  "getDayOfWeek getDay dateString =
     (let days = [''sunday'', ''monday'', ''tuesday'', ''wednesday'', ''thursday'', ''friday'',
                  ''saturday'']
      in case getDay dateString of
           None \<Rightarrow> None
         | Some n \<Rightarrow> (if n < length days then Some (days ! n) else None))"

text \<open>
  Without an override, an invalid date makes \<open>getDaySchedule\<close> call \<open>toLowerCase\<close> on
  \<open>undefined\<close>, which raises a \<open>TypeError\<close>.
\<close>

definition getScheduleForDate :: "calendar \<Rightarrow> DataManager \<Rightarrow> string \<Rightarrow> error + ClassTime list" where
  "getScheduleForDate getDay dm date =
     (case getScheduleOverride dm date of
        Some ov \<Rightarrow> Inr (classes ov)
      | None \<Rightarrow>
          (case getDayOfWeek getDay date of
             None \<Rightarrow> Inl TypeError
           | Some dayOfWeek \<Rightarrow> Inr (getDaySchedule dm dayOfWeek)))"

definition getPreferences :: "DataManager \<Rightarrow> UserPreferences" where
  "getPreferences dm = preferences dm"

section \<open>CollegeDecisionEngine\<close>

text \<open>
  \<open>DecisionContext.upcomingSchedule\<close>, the schedule of the thirty days after the date,
  is read by no function of the engine and is left out of the record. Computing it
  calls \<open>toISOString\<close> on the date plus thirty days, which raises a \<open>RangeError\<close> when the
  date is invalid; \<open>buildDecisionContext\<close> keeps that branch.
\<close>

record DecisionContext =
  context_date :: string
  context_courses :: "Course list"
  daySchedule :: "ClassTime list"
  attendanceStatuses :: "AttendanceStatus list"
  context_preferences :: UserPreferences

record DayAnalysis =
  analysis_date :: string
  scheduledClasses :: "ClassTime list"
  shouldGo :: bool
  recommendedClasses :: "string list"
  reasoning :: "string list"
  timeGaps :: "TimeGap list"
  attendanceImpact :: "(string \<times> Impact) list"

definition getAttendanceSummary :: "Course list \<Rightarrow> AttendanceStatus list" where
  "getAttendanceSummary cs = map calculateAttendanceStatus cs"

definition buildDecisionContext ::
  "calendar \<Rightarrow> DataManager \<Rightarrow> string \<Rightarrow> error + DecisionContext" where
  "buildDecisionContext getDay dm date =
     (case getScheduleForDate getDay dm date of
        Inl e \<Rightarrow> Inl e
      | Inr schedule \<Rightarrow>
          (if getDay date = None then Inl RangeError
           else Inr \<lparr> context_date = date,
                      context_courses = getAllCourses dm,
                      daySchedule = schedule,
                      attendanceStatuses = getAttendanceSummary (getAllCourses dm),
                      context_preferences = getPreferences dm \<rparr>))"

definition calculateAttendanceImpact ::
  "ClassTime list \<Rightarrow> DecisionContext \<Rightarrow> (string \<times> Impact) list" where
  "calculateAttendanceImpact scheduled context =
     (let remainingClassCounts =
            foldl (\<lambda>counts course.
                     AList.update (id' course)
                       (max 0 (totalClassesScheduled course -
                               (classesAttended course + classesCancelled course))) counts)
                  [] (context_courses context)
      in calculateDayImpact (context_courses context) scheduled remainingClassCounts)"

definition mustAttendStep :: "Course list \<Rightarrow> string list \<Rightarrow> ClassTime \<Rightarrow> string list" where
  "mustAttendStep cs mustAttend classTime =
     (case findCourse cs (courseId classTime) of
        None \<Rightarrow> mustAttend
      | Some course \<Rightarrow>
          (let status = calculateAttendanceStatus course
           in if currentPercentage status < requiredAttendancePercentage course \<or>
                 canSkip status = 0 \<or> isAtRisk status
              then mustAttend @ [courseId classTime]
              else mustAttend))"

definition findMustAttendClasses :: "DecisionContext \<Rightarrow> string list" where
  "findMustAttendClasses context =
     foldl (mustAttendStep (context_courses context)) [] (daySchedule context)"

definition buildReasoning ::
  "Decision \<Rightarrow> Optimization \<Rightarrow> (string \<times> Impact) list \<Rightarrow> DecisionContext \<Rightarrow> string list" where
  "buildReasoning decision optimization impacts context =
     (let reasoning1 = decision_reasoning decision;
          criticalCourses =
            map fst (filter (\<lambda>(k, v). isRequired v) (Object_entries impacts));
          courseNames =
            map (\<lambda>k. case findCourse (context_courses context) k of
                        Some course \<Rightarrow> name course
                      | None \<Rightarrow> k) criticalCourses;
          reasoning2 =
            (if criticalCourses \<noteq> []
             then reasoning1 @ [''Critical attendance: '' @ join '', '' courseNames]
             else reasoning1);
          reasoning3 = reasoning2 @ opt_reasoning optimization
      in if selectedClasses optimization \<noteq> []
         then
           (let totalTime = calculateDayDuration (selectedClasses optimization);
                efficiency = fl (of_int totalTime / 240)
            in if efficiency < 1
               then reasoning3 @
                    [''Low efficiency: '' @ hoursText totalTime @ ''h at college vs 4h travel'']
               else reasoning3 @
                    [''Good efficiency: '' @ hoursText totalTime @ ''h at college for 4h travel''])
         else reasoning3)"

definition analyzeDay :: "calendar \<Rightarrow> DataManager \<Rightarrow> string \<Rightarrow> error + DayAnalysis" where
  "analyzeDay getDay dm date =
     (case buildDecisionContext getDay dm date of
        Inl e \<Rightarrow> Inl e
      | Inr context \<Rightarrow>
          (case getScheduleForDate getDay dm date of
             Inl e \<Rightarrow> Inl e
           | Inr scheduled \<Rightarrow>
               (if scheduled = []
                then Inr \<lparr> analysis_date = date,
                           scheduledClasses = [],
                           shouldGo = False,
                           recommendedClasses = [],
                           reasoning = [''No classes scheduled for this day''],
                           timeGaps = [],
                           attendanceImpact = [] \<rparr>
                else
                  (let impacts = calculateAttendanceImpact scheduled context;
                       mustAttendClasses = findMustAttendClasses context;
                       optimization =
                         optimizeClassSelection scheduled mustAttendClasses
                           (context_preferences context);
                       decision =
                         shouldGoToCollege scheduled mustAttendClasses
                           (context_preferences context);
                       gaps = calculateTimeGaps (selectedClasses optimization)
                   in Inr \<lparr> analysis_date = date,
                              scheduledClasses = scheduled,
                              shouldGo = decision_shouldGo decision,
                              recommendedClasses = map courseId (selectedClasses optimization),
                              reasoning = buildReasoning decision optimization impacts context,
                              timeGaps = gaps,
                              attendanceImpact = impacts \<rparr>))))"

definition calculateConfidenceScore :: "DayAnalysis \<Rightarrow> int" where
  "calculateConfidenceScore analysis =
     (if \<not> shouldGo analysis \<and> scheduledClasses analysis = [] then 100
      else if shouldGo analysis \<and> recommendedClasses analysis = [] then 20
      else
        (let mustAttendCount =
               length (filter isRequired (Object_values (attendanceImpact analysis)));
             confidence1 = 70 + int mustAttendCount * 10;
             maxGap = maxDuration (timeGaps analysis);
             confidence2 = (if 180 < maxGap then confidence1 - 15 else confidence1);
             confidence3 =
               (if recommendedClasses analysis \<noteq> []
                then
                  (let totalTime =
                         calculateDayDuration
                           (filter (\<lambda>c. courseId c \<in> set (recommendedClasses analysis))
                              (scheduledClasses analysis));
                       efficiency = fl (of_int totalTime / 240)
                   in if efficiency < 5 / 10 then confidence2 - 20
                      else if 15 / 10 < efficiency then confidence2 + 10
                      else confidence2)
                else confidence2)
         in max 0 (min 100 (Math_round (of_int confidence3)))))"

record Simulation =
  newPercentage :: jsnum
  impact :: string

text \<open>
  \<open>simulateAttendanceDecision\<close> passes the data manager through every iteration of its
  loop and returns it with the result, so that what the call does to the stored courses
  is part of its value.
\<close>

definition simulateStep ::
  "string list \<Rightarrow> DataManager \<times> (string \<times> Simulation) list \<Rightarrow> ClassTime \<Rightarrow>
   DataManager \<times> (string \<times> Simulation) list" where
  "simulateStep attendedCourseIds state classTime =
     (let (dm, result) = state
      in case getCourse dm (courseId classTime) of
           None \<Rightarrow> (dm, result)
         | Some course \<Rightarrow>
             (let wasAttended = (courseId classTime \<in> set attendedCourseIds);
                  newAttended = classesAttended course + (if wasAttended then 1 else 0);
                  newTotal = totalClassesScheduled course - classesCancelled course + 1;
                  percentage = js_times (js_div (of_int newAttended) (of_int newTotal)) 100;
                  verdict =
                    (if js_lt percentage (requiredAttendancePercentage course)
                     then ''critical''
                     else if js_lt percentage (fl (requiredAttendancePercentage course + 5))
                     then ''warning''
                     else ''safe'')
              in (dm, AList.update (courseId classTime)
                        \<lparr> newPercentage = js_round2 percentage, impact = verdict \<rparr> result)))"

definition simulateAttendanceDecision ::
  "calendar \<Rightarrow> DataManager \<Rightarrow> string \<Rightarrow> string list \<Rightarrow>
   (error + (string \<times> Simulation) list) \<times> DataManager" where
  "simulateAttendanceDecision getDay dm date attendedCourseIds =
     (case getScheduleForDate getDay dm date of
        Inl e \<Rightarrow> (Inl e, dm)
      | Inr dayClasses \<Rightarrow>
          (let (dm', result) = foldl (simulateStep attendedCourseIds) (dm, []) dayClasses
           in (Inr result, dm')))"

section \<open>The claims' formulas\<close>

text \<open>
  The definitions of this section follow the words of the specification, in exact
  arithmetic, not the source; the theorems below compare the source's functions with
  them.
\<close>

text \<open>The current percentage as the specification writes it.\<close>

definition percentageFormula :: "Course \<Rightarrow> rat" where
  "percentageFormula course =
     (if totalClassesScheduled course - classesCancelled course = 0 then 100
      else of_int (classesAttended course) /
           of_int (totalClassesScheduled course - classesCancelled course) * 100)"

text \<open>The day score as the specification writes it.\<close>

definition dayScoreFormula :: "ClassTime list \<Rightarrow> UserPreferences \<Rightarrow> string list \<Rightarrow> rat" where
  "dayScoreFormula selection prefs mustAttend =
     10 * of_nat (length selection)
     + 20 * of_nat (length (filter (\<lambda>c. courseId c \<in> set mustAttend) selection))
     - of_int (sum_list (map duration (calculateTimeGaps selection))) / 60
     - (if maxGapBetweenClasses prefs < maxDuration (calculateTimeGaps selection) then 50 else 0)
     - (if int (length selection) < minimumClassesPerDay prefs then 30 else 0)
     + 5 * of_nat (length (filter (\<lambda>c. courseId c \<in> set (priorityCourses prefs)) selection))"

text \<open>The condition under which a course's class is classified must-attend.\<close>

definition needsAttendance :: "Course \<Rightarrow> bool" where
  "needsAttendance course =
     (currentPercentage (calculateAttendanceStatus course) < requiredAttendancePercentage course \<or>
      canSkip (calculateAttendanceStatus course) = 0 \<or>
      isAtRisk (calculateAttendanceStatus course))"



text \<open>
  The hypothetical percentage of a course after the simulated day as the specification
  writes it, and its verdict.
\<close>

definition hypotheticalFormula :: "string list \<Rightarrow> Course \<Rightarrow> rat" where
  "hypotheticalFormula attendedCourseIds course =
     of_int (classesAttended course + (if id' course \<in> set attendedCourseIds then 1 else 0)) /
     of_int (totalClassesScheduled course - classesCancelled course + 1) * 100"

definition verdictFormula :: "string list \<Rightarrow> Course \<Rightarrow> string" where
  "verdictFormula attendedCourseIds course =
     (if hypotheticalFormula attendedCourseIds course < requiredAttendancePercentage course
      then ''critical''
      else if hypotheticalFormula attendedCourseIds course
              < requiredAttendancePercentage course + 5
      then ''warning''
      else ''safe'')"

section \<open>What the source computes, in closed form\<close>

text \<open>
  The same quantities as the source computes them: in double arithmetic, each
  operation rounded, in the order of the source.
\<close>

text \<open>
  The day score of a selection that is not empty, before its last rounding to one
  decimal.
\<close>

definition dayScoreDouble :: "ClassTime list \<Rightarrow> UserPreferences \<Rightarrow> string list \<Rightarrow> rat" where
  "dayScoreDouble selection prefs mustAttend =
     (let counted =
            10 * of_nat (length selection)
            + 20 * of_nat (length (filter (\<lambda>c. courseId c \<in> set mustAttend) selection));
          gaps = calculateTimeGaps selection;
          afterGaps = fl (counted - fl (of_int (sum_list (map duration gaps)) / 60));
          afterLimit = (if maxGapBetweenClasses prefs < maxDuration gaps
                        then fl (afterGaps - 50) else afterGaps);
          afterMinimum = (if int (length selection) < minimumClassesPerDay prefs
                          then fl (afterLimit - 30) else afterLimit)
      in fl (afterMinimum
             + 5 * of_nat (length (filter (\<lambda>c. courseId c \<in> set (priorityCourses prefs))
                                     selection))))"


text \<open>
  The hypothetical percentage of a course after the simulated day, and the entry that
  the simulation reports for it.
\<close>

definition hypotheticalPercentage :: "string list \<Rightarrow> Course \<Rightarrow> jsnum" where
  "hypotheticalPercentage attendedCourseIds course =
     js_times
       (js_div
          (of_int (classesAttended course +
                   (if id' course \<in> set attendedCourseIds then 1 else 0)))
          (of_int (totalClassesScheduled course - classesCancelled course + 1)))
       100"

definition simulated :: "string list \<Rightarrow> Course \<Rightarrow> Simulation" where
  "simulated attendedCourseIds course =
     \<lparr> newPercentage = js_round2 (hypotheticalPercentage attendedCourseIds course),
       impact =
         (if js_lt (hypotheticalPercentage attendedCourseIds course)
                (requiredAttendancePercentage course)
          then ''critical''
          else if js_lt (hypotheticalPercentage attendedCourseIds course)
                     (fl (requiredAttendancePercentage course + 5))
          then ''warning''
          else ''safe'') \<rparr>"

section \<open>Example data\<close>

text \<open>
  A part of the example system of \<open>lib/exampleData.ts\<close>: two of its courses, its
  Wednesday, its two schedule overrides and its preferences; and the student with good
  attendance of \<open>lib/demo.ts\<close> with a single class on Wednesdays. The calendar knows
  the three dates used: a Monday, a Wednesday and a Saturday of January 2024.
\<close>

definition exampleCalendar :: calendar where
  "exampleCalendar dateString =
     (if dateString = ''2024-01-15'' then Some 1
      else if dateString = ''2024-01-17'' then Some 3
      else if dateString = ''2024-01-20'' then Some 6
      else None)"

definition cs101 :: Course where
  "cs101 = \<lparr> id' = ''CS101'', name = ''Introduction to Computer Science'',
             requiredAttendancePercentage = 75, totalClassesScheduled = 60,
             classesAttended = 42, classesCancelled = 3 \<rparr>"

definition math201 :: Course where
  "math201 = \<lparr> id' = ''MATH201'', name = ''Calculus II'',
               requiredAttendancePercentage = 75, totalClassesScheduled = 45,
               classesAttended = 30, classesCancelled = 1 \<rparr>"

definition wednesdayCS101 :: ClassTime where
  "wednesdayCS101 = \<lparr> startTime = ''09:00'', endTime = ''10:30'', courseId = ''CS101'',
                      location = Some ''Room 101'' \<rparr>"

definition wednesdayMATH201 :: ClassTime where
  "wednesdayMATH201 = \<lparr> startTime = ''11:00'', endTime = ''12:30'', courseId = ''MATH201'',
                        location = Some ''Room 205'' \<rparr>"

definition rescheduledCS101 :: ClassTime where
  "rescheduledCS101 = \<lparr> startTime = ''10:00'', endTime = ''11:30'', courseId = ''CS101'',
                        location = Some ''Room 101'' \<rparr>"

definition rescheduledMATH201 :: ClassTime where
  "rescheduledMATH201 = \<lparr> startTime = ''14:00'', endTime = ''15:30'', courseId = ''MATH201'',
                          location = Some ''Room 205'' \<rparr>"

definition examplePreferences :: UserPreferences where
  "examplePreferences = \<lparr> minimizeCollegeDays = True, maxGapBetweenClasses = 180,
                          priorityCourses = [''LAB101'', ''CS101''],
                          minimumClassesPerDay = 2 \<rparr>"

definition exampleManager :: DataManager where
  "exampleManager =
     \<lparr> courses = [cs101, math201],
       weeklySchedule = [''wednesday'' \<mapsto> [wednesdayCS101, wednesdayMATH201]],
       scheduleOverrides =
         [\<lparr> override_date = ''2024-01-15'',
            classes = [rescheduledCS101, rescheduledMATH201],
            reason = Some ''Rescheduled due to instructor availability'' \<rparr>,
          \<lparr> override_date = ''2024-01-20'', classes = [],
            reason = Some ''Martin Luther King Jr. Day - No classes'' \<rparr>],
       attendanceRecords = [],
       preferences = examplePreferences \<rparr>"





text \<open>
  Inputs on which rounding shows: a course with 97 of 160 held classes attended; two
  slots 51 minutes apart, both must-attend, under a gap limit of 30 minutes; and a
  course with 28 of 49 held classes attended that requires 58 percent, with its class on
  Wednesdays.
\<close>

definition stat160 :: Course where
  "stat160 = \<lparr> id' = ''STAT160'', name = ''Statistics'',
               requiredAttendancePercentage = 75, totalClassesScheduled = 160,
               classesAttended = 97, classesCancelled = 0 \<rparr>"

definition earlySlot :: ClassTime where
  "earlySlot = \<lparr> startTime = ''09:00'', endTime = ''10:00'', courseId = ''A'',
                 location = None \<rparr>"

definition lateSlot :: ClassTime where
  "lateSlot = \<lparr> startTime = ''10:51'', endTime = ''11:51'', courseId = ''B'',
                location = None \<rparr>"

definition strictPreferences :: UserPreferences where
  "strictPreferences = \<lparr> minimizeCollegeDays = True, maxGapBetweenClasses = 30,
                         priorityCourses = [], minimumClassesPerDay = 2 \<rparr>"

definition econ58 :: Course where
  "econ58 = \<lparr> id' = ''ECON58'', name = ''Economics'',
              requiredAttendancePercentage = 58, totalClassesScheduled = 49,
              classesAttended = 28, classesCancelled = 0 \<rparr>"

definition boundaryManager :: DataManager where
  "boundaryManager =
     \<lparr> courses = [econ58],
       weeklySchedule =
         [''wednesday'' \<mapsto> [\<lparr> startTime = ''09:00'', endTime = ''10:30'',
                               courseId = ''ECON58'', location = None \<rparr>]],
       scheduleOverrides = [],
       attendanceRecords = [],
       preferences = examplePreferences \<rparr>"

section \<open>Properties of the number model\<close>

text \<open>
  Values of \<open>fl\<close>: small integers are doubles, and the double nearest to one tenth is
  \<open>3602879701896397 / 2 ^ 55\<close>.
\<close>

lemma fl_one: "fl 1 = 1"
  by code_simp

lemma fl_hundred: "fl 100 = 100"
  by code_simp

lemma fl_tenth: "fl (1 / 10) = 3602879701896397 / 36028797018963968"
  by code_simp


lemma round2_zero: "round2 0 = 0"
  by code_simp

lemma round2_hundred: "round2 100 = 100"
  by code_simp

text \<open>
  The exponent that \<open>exponentOf\<close> computes is the binary exponent, \<open>fl\<close> keeps the sign,
  and in the range of the normal numbers it is off by at most \<open>2 ^ - 53\<close> of its argument.
\<close>

lemma pow2_powi: "pow2 e = 2 powi e"
  by (simp add: pow2_def power_int_def power_inverse inverse_eq_divide power_one_over)

lemma pow2_pos: "0 < pow2 e"
  by (simp add: pow2_powi)

lemma pow2_add: "pow2 (a + b) = pow2 a * pow2 b"
  by (simp add: pow2_powi power_int_add)

lemma pow2_mono: "a \<le> b \<Longrightarrow> pow2 a \<le> pow2 b"
  by (simp add: pow2_powi power_int_increasing)

lemma pow2_nat: "0 \<le> e \<Longrightarrow> pow2 e = 2 ^ nat e"
  by (simp add: pow2_def)

lemma bitlen_bounds:
  "0 < n \<Longrightarrow> 0 < bitlen n \<and> 2 ^ nat (bitlen n - 1) \<le> n \<and> n < 2 ^ nat (bitlen n)"
proof (induction n rule: bitlen.induct)
  case (1 n)
  show ?case
  proof (cases "n = 1")
    case True
    have "bitlen (0 :: int) = 0" by (simp add: bitlen.simps)
    then have "bitlen 1 = 1" by (simp add: bitlen.simps [of 1])
    with True show ?thesis by simp
  next
    case False
    with "1.prems" have half: "0 < n div 2" by simp
    from "1.prems" have "\<not> n \<le> 0" by simp
    from "1.IH" [OF this half]
    have ih: "0 < bitlen (n div 2)" "2 ^ nat (bitlen (n div 2) - 1) \<le> n div 2"
      "n div 2 < 2 ^ nat (bitlen (n div 2))"
      by simp_all
    have len: "bitlen n = 1 + bitlen (n div 2)"
      using "1.prems" by (simp add: bitlen.simps [of n])
    define k where "k = nat (bitlen (n div 2) - 1)"
    have k: "nat (bitlen (n div 2)) = Suc k" "nat (bitlen n - 1) = Suc k"
      "nat (bitlen n) = Suc (Suc k)"
      using ih(1) len by (simp_all add: k_def)
    have lower: "(2 :: int) ^ Suc k \<le> n"
      using ih(2) unfolding k_def [symmetric] by (simp; linarith?)
    have upper: "n < (2 :: int) ^ Suc (Suc k)"
      using ih(3) unfolding k(1) by (simp; linarith?)
    show ?thesis
      using lower upper ih(1) len unfolding k by simp
  qed
qed

lemma bitlen_pow2:
  assumes "0 < n"
  shows "pow2 (bitlen n - 1) \<le> of_int n" and "of_int n < pow2 (bitlen n)"
proof -
  from bitlen_bounds [OF assms]
  have b: "0 < bitlen n" "2 ^ nat (bitlen n - 1) \<le> n" "n < 2 ^ nat (bitlen n)"
    by simp_all
  have "(of_int (2 ^ nat (bitlen n - 1)) :: rat) \<le> of_int n"
    using b(2) by (simp only: of_int_le_iff)
  then show "pow2 (bitlen n - 1) \<le> of_int n"
    using b(1) by (simp add: pow2_nat)
  have "(of_int n :: rat) < of_int (2 ^ nat (bitlen n))"
    using b(3) by (simp only: of_int_less_iff)
  then show "of_int n < pow2 (bitlen n)"
    using b(1) by (simp add: pow2_nat)
qed

lemma exponentOf_bounds:
  assumes "x \<noteq> 0"
  shows "pow2 (exponentOf x) \<le> \<bar>x\<bar>" and "\<bar>x\<bar> < pow2 (exponentOf x + 1)"
proof -
  obtain p q where pq: "quotient_of \<bar>x\<bar> = (p, q)"
    by (cases "quotient_of \<bar>x\<bar>")
  have q: "0 < q" using pq by (rule quotient_of_denom_pos)
  have x: "\<bar>x\<bar> = of_int p / of_int q" using pq by (rule quotient_of_div)
  have "0 < \<bar>x\<bar>" using assms by simp
  then have p: "0 < p" using q unfolding x by (simp add: zero_less_divide_iff)
  define a where "a = bitlen p"
  define b where "b = bitlen q"
  note pa = bitlen_pow2 [OF p, folded a_def]
  note qb = bitlen_pow2 [OF q, folded b_def]
  have qpos: "(0 :: rat) < of_int q" using q by simp
  have ppos: "(0 :: rat) < of_int p" using p by simp
  have low: "pow2 (a - b - 1) \<le> \<bar>x\<bar>"
  proof -
    have "pow2 (a - b - 1) * of_int q \<le> pow2 (a - b - 1) * pow2 b"
      using qb(2) pow2_pos [of "a - b - 1"] by (simp add: mult_left_mono less_imp_le)
    also have "\<dots> = pow2 (a - 1)"
      using pow2_add [of "a - b - 1" b] by simp
    also have "\<dots> \<le> of_int p" by (rule pa(1))
    finally show ?thesis
      unfolding x using qpos by (simp add: pos_le_divide_eq)
  qed
  have high: "\<bar>x\<bar> < pow2 (a - b + 1)"
  proof -
    have "of_int p < pow2 a" by (rule pa(2))
    also have "\<dots> = pow2 (a - b + 1) * pow2 (b - 1)"
      using pow2_add [of "a - b + 1" "b - 1"] by simp
    also have "\<dots> \<le> pow2 (a - b + 1) * of_int q"
      using qb(1) pow2_pos [of "a - b + 1"] by (simp add: mult_left_mono less_imp_le)
    finally show ?thesis
      unfolding x using qpos by (simp add: pos_divide_less_eq)
  qed
  have e: "exponentOf x = (if pow2 (a - b) \<le> \<bar>x\<bar> then a - b else a - b - 1)"
    by (simp add: exponentOf_def pq a_def b_def Let_def)
  show "pow2 (exponentOf x) \<le> \<bar>x\<bar>"
    using low by (simp add: e)
  show "\<bar>x\<bar> < pow2 (exponentOf x + 1)"
    using high by (auto simp: e not_le)
qed

lemma roundHalfEven_error: "\<bar>of_int (roundHalfEven q) - q\<bar> \<le> 1 / 2"
proof -
  have "of_int \<lfloor>q\<rfloor> \<le> q" "q < of_int \<lfloor>q\<rfloor> + 1"
    by linarith+
  then show ?thesis
    by (auto simp: roundHalfEven_def Let_def abs_le_iff)
qed

lemma roundHalfEven_sign:
  "0 \<le> q \<Longrightarrow> 0 \<le> roundHalfEven q" "q \<le> 0 \<Longrightarrow> roundHalfEven q \<le> 0"
proof -
  assume "0 \<le> q"
  then have "0 \<le> \<lfloor>q\<rfloor>" by simp
  then show "0 \<le> roundHalfEven q"
    by (auto simp: roundHalfEven_def Let_def)
next
  assume q: "q \<le> 0"
  show "roundHalfEven q \<le> 0"
  proof (cases "q = of_int \<lfloor>q\<rfloor>")
    case True
    then have "\<lfloor>q\<rfloor> \<le> 0" using q by linarith
    with True show ?thesis by (simp add: roundHalfEven_def Let_def)
  next
    case False
    then have "of_int \<lfloor>q\<rfloor> < q" by linarith
    with q have "\<lfloor>q\<rfloor> < 0" by linarith
    then have "\<lfloor>q\<rfloor> + 1 \<le> 0" by linarith
    then show ?thesis
      by (auto simp: roundHalfEven_def Let_def)
  qed
qed

lemma fl_sign: "0 \<le> x \<Longrightarrow> 0 \<le> fl x" "x \<le> 0 \<Longrightarrow> fl x \<le> 0"
proof -
  assume x: "0 \<le> x"
  show "0 \<le> fl x"
  proof (cases "x = 0")
    case True
    then show ?thesis by (simp add: fl_def)
  next
    case False
    define u where "u = pow2 (max (exponentOf x) (- 1022) - 52)"
    have u: "0 < u" unfolding u_def by (rule pow2_pos)
    then have "0 \<le> x / u" using x by simp
    then have "0 \<le> roundHalfEven (x / u)" by (rule roundHalfEven_sign)
    then have "0 \<le> (of_int (roundHalfEven (x / u)) :: rat) * u"
      using u by simp
    then show ?thesis using False by (simp add: fl_def Let_def u_def)
  qed
next
  assume x: "x \<le> 0"
  show "fl x \<le> 0"
  proof (cases "x = 0")
    case True
    then show ?thesis by (simp add: fl_def)
  next
    case False
    define u where "u = pow2 (max (exponentOf x) (- 1022) - 52)"
    have u: "0 < u" unfolding u_def by (rule pow2_pos)
    then have "x / u \<le> 0" using x by (simp add: divide_nonpos_pos)
    then have "roundHalfEven (x / u) \<le> 0" by (rule roundHalfEven_sign)
    then have "(of_int (roundHalfEven (x / u)) :: rat) * u \<le> 0"
      using u by (simp add: mult_nonpos_nonneg)
    then show ?thesis using False by (simp add: fl_def Let_def u_def)
  qed
qed

lemma fl_error:
  assumes "x \<noteq> 0" and "- 1022 \<le> exponentOf x"
  shows "\<bar>fl x - x\<bar> \<le> \<bar>x\<bar> * pow2 (- 53)"
proof -
  define e where "e = exponentOf x"
  define u where "u = pow2 (e - 52)"
  have u: "0 < u" unfolding u_def by (rule pow2_pos)
  have fl: "fl x = of_int (roundHalfEven (x / u)) * u"
    using assms by (simp add: fl_def Let_def u_def e_def max_def)
  have "fl x - x = (of_int (roundHalfEven (x / u)) - x / u) * u"
    using u by (simp add: fl left_diff_distrib)
  then have "\<bar>fl x - x\<bar> = \<bar>of_int (roundHalfEven (x / u)) - x / u\<bar> * u"
    using u by (simp add: abs_mult)
  also have "\<dots> \<le> 1 / 2 * u"
    using roundHalfEven_error [of "x / u"] u by (simp add: mult_right_mono)
  also have "\<dots> = pow2 e * pow2 (- 53)"
  proof -
    have "pow2 (e - 52) = pow2 e * pow2 (- 52)"
      using pow2_add [of e "- 52"] by simp
    moreover have "pow2 (- 52) = 2 * pow2 (- 53)"
      by (simp add: pow2_def)
    ultimately show ?thesis by (simp add: u_def)
  qed
  also have "\<dots> \<le> \<bar>x\<bar> * pow2 (- 53)"
    using exponentOf_bounds(1) [OF assms(1)] pow2_pos [of "- 53"]
    by (simp add: e_def mult_right_mono less_imp_le)
  finally show ?thesis .
qed

text \<open>
  The efficiency of a day is its minutes on campus over the 240 minutes of travel. The
  source compares the rounded quotient with \<open>0.5\<close>, \<open>1\<close> and \<open>1.5\<close>; the comparisons come out
  as they do for the exact quotient.
\<close>

lemma fl_error_positive:
  assumes "1 / 240 \<le> x"
  shows "\<bar>fl x - x\<bar> \<le> x / 9007199254740992"
proof -
  have pos: "0 < x" using assms by simp
  then have nz: "x \<noteq> 0" by simp
  have "- 1022 \<le> exponentOf x"
  proof (rule ccontr)
    assume "\<not> - 1022 \<le> exponentOf x"
    then have "exponentOf x + 1 \<le> - 8" by simp
    then have "pow2 (exponentOf x + 1) \<le> pow2 (- 8)" by (rule pow2_mono)
    also have "\<dots> = 1 / 256" by (simp add: pow2_def)
    finally have "\<bar>x\<bar> < 1 / 256"
      using exponentOf_bounds(2) [OF nz] by simp
    with assms show False by simp
  qed
  from fl_error [OF nz this] pos show ?thesis
    by (simp add: pow2_def)
qed

lemma fl_quotient_below:
  assumes k: "0 < k" "k \<le> 1000"
    and exact: "fl (of_int k / 240) = of_int k / 240"
  shows "(fl (of_int t / 240) < of_int k / 240) = (t < k)"
proof (cases "t \<le> 0")
  case True
  then have "(of_int t :: rat) / 240 \<le> 0" by simp
  then have "fl (of_int t / 240) \<le> 0" by (rule fl_sign)
  moreover have "(0 :: rat) < of_int k / 240" using k by simp
  ultimately show ?thesis using True k by simp
next
  case False
  then have "(1 :: rat) \<le> of_int t" by simp
  then have "(1 :: rat) / 240 \<le> of_int t / 240" by simp
  from fl_error_positive [OF this]
  have err: "\<bar>fl (of_int t / 240) - of_int t / 240\<bar> \<le> of_int t / 240 / 9007199254740992" .
  have kr: "(of_int k :: rat) \<le> 1000" using k(2) by simp
  show ?thesis
  proof (cases "t < k")
    case True
    then have "t \<le> k - 1" by simp
    then have "(of_int t :: rat) \<le> of_int k - 1"
      by (metis of_int_1 of_int_diff of_int_le_iff)
    with err kr have "fl (of_int t / 240) < of_int k / 240"
      by linarith
    with True show ?thesis by simp
  next
    case less: False
    show ?thesis
    proof (cases "t = k")
      case True
      with exact show ?thesis by simp
    next
      case False
      with less have "k + 1 \<le> t" by simp
      then have "(of_int k :: rat) + 1 \<le> of_int t"
        by (metis of_int_1 of_int_add of_int_le_iff)
      with err kr have "\<not> fl (of_int t / 240) < of_int k / 240"
        by linarith
      with less show ?thesis by simp
    qed
  qed
qed




lemma efficiency_below_one: "(fl (of_int t / 240) < 1) = ((of_int t :: rat) / 240 < 1)"
proof -
  have "fl (of_int 240 / 240) = of_int 240 / 240" by code_simp
  from fl_quotient_below [of 240 t, OF _ _ this] show ?thesis by simp
qed

section \<open>Properties of AttendanceCalculator\<close>

text \<open>
  C10. A course with no class held and none attended, asked about zero remaining
  classes, is reported as not recoverable whatever percentage is required: the maximum
  possible percentage is \<open>0 / 0 * 100\<close>, which is \<open>NaN\<close>, and \<open>NaN >= required\<close> is false.
\<close>

theorem isAttendanceRecoverable_zero_held:
  assumes "totalClassesScheduled course = classesCancelled course"
    and "classesAttended course = 0"
  shows "\<not> isAttendanceRecoverable course 0"
  using assms by (simp add: isAttendanceRecoverable_def js_div_def)

theorem isAttendanceRecoverable_zero_held_witness:
  "totalClassesScheduled
      \<lparr> id' = ''CS101'', name = ''Computer Science'', requiredAttendancePercentage = 0,
        totalClassesScheduled = 3, classesAttended = 0, classesCancelled = 3 \<rparr> =
    classesCancelled
      \<lparr> id' = ''CS101'', name = ''Computer Science'', requiredAttendancePercentage = 0,
        totalClassesScheduled = 3, classesAttended = 0, classesCancelled = 3 \<rparr> \<and>
   classesAttended
      \<lparr> id' = ''CS101'', name = ''Computer Science'', requiredAttendancePercentage = 0,
        totalClassesScheduled = 3, classesAttended = 0, classesCancelled = 3 \<rparr> = 0 \<and>
   \<not> isAttendanceRecoverable
      \<lparr> id' = ''CS101'', name = ''Computer Science'', requiredAttendancePercentage = 0,
        totalClassesScheduled = 3, classesAttended = 0, classesCancelled = 3 \<rparr> 0"
  using isAttendanceRecoverable_zero_held
    [of "\<lparr> id' = ''CS101'', name = ''Computer Science'', requiredAttendancePercentage = 0,
          totalClassesScheduled = 3, classesAttended = 0, classesCancelled = 3 \<rparr>"]
  by simp

text \<open>
  C4 (as the code has it). With \<open>held = totalClassesScheduled - classesCancelled\<close>, the
  status reports \<open>0\<close> when \<open>held\<close> is not positive. When \<open>held\<close> is positive it reports
  \<open>classesAttended / held * 100\<close> as computed in double arithmetic, the quotient and the
  product each rounded to the nearest double, and then rounded to two decimals by
  \<open>Math.round(x * 100) / 100\<close>. A course that attended all of a positive number of held
  classes is at \<open>100\<close>, and \<open>canSkip\<close> is never negative.
\<close>

theorem calculateAttendanceStatus_percentage:
  fixes course :: Course
  defines "held \<equiv> totalClassesScheduled course - classesCancelled course"
  shows "(0 < held \<longrightarrow>
            currentPercentage (calculateAttendanceStatus course) =
              round2 (fl (fl (of_int (classesAttended course) / of_int held) * 100))) \<and>
         (held \<le> 0 \<longrightarrow> currentPercentage (calculateAttendanceStatus course) = 0) \<and>
         (0 < held \<and> classesAttended course = held \<longrightarrow>
            currentPercentage (calculateAttendanceStatus course) = 100) \<and>
         0 \<le> canSkip (calculateAttendanceStatus course)"
  by (simp add: calculateAttendanceStatus_def Let_def held_def round2_zero round2_hundred
      fl_one fl_hundred)

theorem calculateAttendanceStatus_percentage_witness:
  "(0 :: int) < 40 - 0 \<and>
   currentPercentage (calculateAttendanceStatus
      \<lparr> id' = ''MATH201'', name = ''Mathematics'', requiredAttendancePercentage = 75,
        totalClassesScheduled = 40, classesAttended = 28, classesCancelled = 0 \<rparr>) =
     round2 (fl (fl (28 / 40) * 100)) \<and>
   (5 :: int) - 5 \<le> 0 \<and>
   currentPercentage (calculateAttendanceStatus
      \<lparr> id' = ''PHY'', name = ''Physics'', requiredAttendancePercentage = 75,
        totalClassesScheduled = 5, classesAttended = 0, classesCancelled = 5 \<rparr>) = 0 \<and>
   (0 :: int) < 12 - 2 \<and> (10 :: int) = 12 - 2 \<and>
   currentPercentage (calculateAttendanceStatus
      \<lparr> id' = ''CS101'', name = ''Computer Science'', requiredAttendancePercentage = 75,
        totalClassesScheduled = 12, classesAttended = 10, classesCancelled = 2 \<rparr>) = 100"
  using calculateAttendanceStatus_percentage
      [of "\<lparr> id' = ''MATH201'', name = ''Mathematics'', requiredAttendancePercentage = 75,
        totalClassesScheduled = 40, classesAttended = 28, classesCancelled = 0 \<rparr>"]
    calculateAttendanceStatus_percentage
      [of "\<lparr> id' = ''PHY'', name = ''Physics'', requiredAttendancePercentage = 75,
        totalClassesScheduled = 5, classesAttended = 0, classesCancelled = 5 \<rparr>"]
    calculateAttendanceStatus_percentage
      [of "\<lparr> id' = ''CS101'', name = ''Computer Science'', requiredAttendancePercentage = 75,
        totalClassesScheduled = 12, classesAttended = 10, classesCancelled = 2 \<rparr>"]
  by simp

text \<open>
  The claim as written promises \<open>100\<close> for a course with no held class, and the exact
  quotient times 100 otherwise. The guard of the source returns \<open>0\<close> for the first; for 97
  of 160 held classes the claim's value is 60.625, and the source, whose product is the
  double just below 60.625, reports 60.62.
\<close>

theorem calculateAttendanceStatus_percentage_counterexample:
  "currentPercentage (calculateAttendanceStatus
      \<lparr> id' = ''CS101'', name = ''Computer Science'', requiredAttendancePercentage = 75,
        totalClassesScheduled = 0, classesAttended = 0, classesCancelled = 0 \<rparr>) = 0 \<and>
   percentageFormula
      \<lparr> id' = ''CS101'', name = ''Computer Science'', requiredAttendancePercentage = 75,
        totalClassesScheduled = 0, classesAttended = 0, classesCancelled = 0 \<rparr> = 100 \<and>
   currentPercentage (calculateAttendanceStatus stat160) = fl (6062 / 100) \<and>
   percentageFormula stat160 = 60625 / 1000 \<and>
   fl (6062 / 100) \<noteq> 60625 / 1000"
proof (intro conjI)
  show "currentPercentage (calculateAttendanceStatus
      \<lparr> id' = ''CS101'', name = ''Computer Science'', requiredAttendancePercentage = 75,
        totalClassesScheduled = 0, classesAttended = 0, classesCancelled = 0 \<rparr>) = 0"
    by code_simp
  show "percentageFormula
      \<lparr> id' = ''CS101'', name = ''Computer Science'', requiredAttendancePercentage = 75,
        totalClassesScheduled = 0, classesAttended = 0, classesCancelled = 0 \<rparr> = 100"
    by code_simp
  show "currentPercentage (calculateAttendanceStatus stat160) = fl (6062 / 100)"
    by code_simp
  show "percentageFormula stat160 = 60625 / 1000"
    by code_simp
  show "fl (6062 / 100) \<noteq> 60625 / 1000"
    by code_simp
qed

section \<open>Properties of ScheduleOptimizer: gaps and duration\<close>

text \<open>
  On a time of the shape \<open>HH:MM\<close> the model of \<open>timeToMinutes\<close> is the number of minutes
  since midnight.
\<close>

lemma digit_cases: "n < 10 \<Longrightarrow> n \<in> {0, 1, 2, 3, 4, 5, 6, 7, 8, 9 :: nat}"
  by auto

lemma digitValue_digitChar: "n < 10 \<Longrightarrow> digitValue (digitChar n) = int n"
  by (drule digit_cases) (auto simp: digitValue_def digitChar_def)

lemma digitChar_not_colon: "n < 10 \<Longrightarrow> digitChar n \<noteq> CHR '':''"
  by (drule digit_cases) (auto simp: digitChar_def)

lemma timeToMinutes_HHMM:
  assumes "h1 < 10" "h2 < 10" "m1 < 10" "m2 < 10"
  shows "timeToMinutes [digitChar h1, digitChar h2, CHR '':'', digitChar m1, digitChar m2] =
     (int h1 * 10 + int h2) * 60 + (int m1 * 10 + int m2)"
  using assms
  by (simp add: timeToMinutes_def Number_js_def digitValue_digitChar digitChar_not_colon)

lemma gapsBetween_pairs:
  "gapsBetween xs =
     map (\<lambda>(a, b). \<lparr> gap_start = endTime a, gap_end = startTime b,
                       duration = timeToMinutes (startTime b) - timeToMinutes (endTime a) \<rparr>)
       (filter (\<lambda>(a, b). timeToMinutes (endTime a) < timeToMinutes (startTime b))
          (zip xs (tl xs)))"
  by (induction xs rule: gapsBetween.induct) (simp_all add: Let_def)

lemma calculateTimeGaps_sorted:
  "calculateTimeGaps slots = gapsBetween (sortByStartTime slots)"
proof (cases slots)
  case Nil
  then show ?thesis by (simp add: calculateTimeGaps_def sortByStartTime_def)
next
  case (Cons c cs)
  show ?thesis
  proof (cases cs)
    case Nil
    with \<open>slots = c # cs\<close> show ?thesis
      by (simp add: calculateTimeGaps_def sortByStartTime_def)
  next
    case (Cons d ds)
    with \<open>slots = c # cs\<close> show ?thesis by (simp add: calculateTimeGaps_def)
  qed
qed

lemma stable_sort_unique:
  fixes f :: "'a \<Rightarrow> int"
  assumes perm: "mset ys = mset xs"
    and ties: "\<And>k. filter (\<lambda>c. f c = k) ys = filter (\<lambda>c. f c = k) xs"
  shows "sort_key f xs = sort_key f ys"
proof (rule properties_for_sort_key)
  show "mset (sort_key f ys) = mset xs" using perm by simp
  show "sorted (map f (sort_key f ys))" by simp
  fix k
  have "filter (\<lambda>x. f k = f x) (sort_key f ys) = filter (\<lambda>x. f x = f k) (sort_key f ys)"
    by (rule filter_cong) auto
  also have "\<dots> = filter (\<lambda>x. f x = f k) ys"
    by (rule sort_key_stable)
  also have "\<dots> = filter (\<lambda>x. f x = f k) xs"
    by (rule ties)
  also have "\<dots> = filter (\<lambda>x. f k = f x) xs"
    by (rule filter_cong) auto
  finally show "filter (\<lambda>x. f k = f x) (sort_key f ys) = filter (\<lambda>x. f k = f x) xs" .
qed

lemma filter_key_distinct:
  "distinct (map f xs) \<Longrightarrow> x \<in> set xs \<Longrightarrow> filter (\<lambda>c. f c = f x) xs = [x]"
proof (induction xs)
  case Nil
  then show ?case by simp
next
  case (Cons a xs)
  show ?case
  proof (cases "x = a")
    case True
    have "filter (\<lambda>c. f c = f a) xs = []"
      using Cons.prems(1) by (force simp: filter_empty_conv image_iff)
    with True show ?thesis by simp
  next
    case False
    with Cons.prems have "x \<in> set xs" by simp
    moreover from this Cons.prems(1) have "f a \<noteq> f x" by auto
    ultimately show ?thesis using Cons by simp
  qed
qed

lemma filter_key_absent:
  "k \<notin> f ` set xs \<Longrightarrow> filter (\<lambda>c. f c = k) xs = []"
  by (auto simp: filter_empty_conv)

lemma distinct_keys_ties:
  assumes perm: "mset ys = mset xs" and dist: "distinct (map f xs)"
  shows "filter (\<lambda>c. f c = k) ys = filter (\<lambda>c. f c = k) xs"
proof -
  have sets: "set ys = set xs" using perm by (rule mset_eq_setD)
  have "mset (map f ys) = mset (map f xs)" using perm by simp
  then have dist': "distinct (map f ys)" using dist by (metis mset_eq_imp_distinct_iff)
  show ?thesis
  proof (cases "k \<in> f ` set xs")
    case True
    then obtain x where x: "x \<in> set xs" "k = f x" by auto
    with dist dist' sets show ?thesis
      by (simp add: filter_key_distinct)
  next
    case False
    with sets show ?thesis by (simp add: filter_key_absent)
  qed
qed

text \<open>
  C5. \<open>calculateTimeGaps\<close> works on the slots sorted by start time (an ascending
  rearrangement of the input) and reports, for each adjacent pair of the sorted list, the
  gap from the end of the first to the start of the second, with their difference in
  minutes as duration, exactly when the second starts strictly after the first ends.
  The slots 09:00-10:30 and 11:00-12:30 give the single gap 10:30-11:00 of 30 minutes,
  and their day duration is 210 minutes.
\<close>

theorem calculateTimeGaps_slots:
  "sorted (map (\<lambda>c. timeToMinutes (startTime c)) (sortByStartTime slots)) \<and>
   mset (sortByStartTime slots) = mset slots \<and>
   calculateTimeGaps slots =
     map (\<lambda>(current, following).
            \<lparr> gap_start = endTime current, gap_end = startTime following,
              duration = timeToMinutes (startTime following) - timeToMinutes (endTime current) \<rparr>)
       (filter (\<lambda>(current, following).
                  timeToMinutes (endTime current) < timeToMinutes (startTime following))
          (zip (sortByStartTime slots) (tl (sortByStartTime slots)))) \<and>
   calculateTimeGaps
     [\<lparr> startTime = ''09:00'', endTime = ''10:30'', courseId = ''CS101'', location = None \<rparr>,
      \<lparr> startTime = ''11:00'', endTime = ''12:30'', courseId = ''MATH201'', location = None \<rparr>] =
     [\<lparr> gap_start = ''10:30'', gap_end = ''11:00'', duration = 30 \<rparr>] \<and>
   calculateDayDuration
     [\<lparr> startTime = ''09:00'', endTime = ''10:30'', courseId = ''CS101'', location = None \<rparr>,
      \<lparr> startTime = ''11:00'', endTime = ''12:30'', courseId = ''MATH201'', location = None \<rparr>] =
     210"
proof (intro conjI)
  show "sorted (map (\<lambda>c. timeToMinutes (startTime c)) (sortByStartTime slots))"
    by (simp add: sortByStartTime_def)
  show "mset (sortByStartTime slots) = mset slots"
    by (simp add: sortByStartTime_def)
  show "calculateTimeGaps slots =
     map (\<lambda>(current, following).
            \<lparr> gap_start = endTime current, gap_end = startTime following,
              duration = timeToMinutes (startTime following) - timeToMinutes (endTime current) \<rparr>)
       (filter (\<lambda>(current, following).
                  timeToMinutes (endTime current) < timeToMinutes (startTime following))
          (zip (sortByStartTime slots) (tl (sortByStartTime slots))))"
    by (simp only: calculateTimeGaps_sorted gapsBetween_pairs)
  show "calculateTimeGaps
     [\<lparr> startTime = ''09:00'', endTime = ''10:30'', courseId = ''CS101'', location = None \<rparr>,
      \<lparr> startTime = ''11:00'', endTime = ''12:30'', courseId = ''MATH201'', location = None \<rparr>] =
     [\<lparr> gap_start = ''10:30'', gap_end = ''11:00'', duration = 30 \<rparr>]"
    by code_simp
  show "calculateDayDuration
     [\<lparr> startTime = ''09:00'', endTime = ''10:30'', courseId = ''CS101'', location = None \<rparr>,
      \<lparr> startTime = ''11:00'', endTime = ''12:30'', courseId = ''MATH201'', location = None \<rparr>] =
     210"
    by code_simp
qed

text \<open>
  C8 (as the code has it). The gaps are the same for two orderings of the slots that
  keep slots of equal start time in the same relative order, and in particular for any
  two orderings of slots with pairwise distinct start times. The day duration of no
  slots is 0.
\<close>

theorem calculateTimeGaps_reordering:
  "(mset ys = mset xs \<and>
      (\<forall>k. filter (\<lambda>c. timeToMinutes (startTime c) = k) ys =
           filter (\<lambda>c. timeToMinutes (startTime c) = k) xs)
      \<longrightarrow> calculateTimeGaps ys = calculateTimeGaps xs) \<and>
   (mset ys = mset xs \<and> distinct (map (\<lambda>c. timeToMinutes (startTime c)) xs)
      \<longrightarrow> calculateTimeGaps ys = calculateTimeGaps xs) \<and>
   calculateDayDuration [] = 0"
proof (intro conjI impI)
  assume a: "mset ys = mset xs \<and>
      (\<forall>k. filter (\<lambda>c. timeToMinutes (startTime c) = k) ys =
           filter (\<lambda>c. timeToMinutes (startTime c) = k) xs)"
  then have "sortByStartTime xs = sortByStartTime ys"
    unfolding sortByStartTime_def by (intro stable_sort_unique) simp_all
  then show "calculateTimeGaps ys = calculateTimeGaps xs"
    by (simp add: calculateTimeGaps_sorted)
next
  assume a: "mset ys = mset xs \<and> distinct (map (\<lambda>c. timeToMinutes (startTime c)) xs)"
  then have "sortByStartTime xs = sortByStartTime ys"
    unfolding sortByStartTime_def
    by (intro stable_sort_unique distinct_keys_ties) simp_all
  then show "calculateTimeGaps ys = calculateTimeGaps xs"
    by (simp add: calculateTimeGaps_sorted)
next
  show "calculateDayDuration [] = 0" by (simp add: calculateDayDuration_def)
qed

theorem calculateTimeGaps_reordering_witness:
  "mset [\<lparr> startTime = ''11:00'', endTime = ''12:30'', courseId = ''MATH201'', location = None \<rparr>,
         \<lparr> startTime = ''09:00'', endTime = ''10:30'', courseId = ''CS101'', location = None \<rparr>] =
   mset [\<lparr> startTime = ''09:00'', endTime = ''10:30'', courseId = ''CS101'', location = None \<rparr>,
         \<lparr> startTime = ''11:00'', endTime = ''12:30'', courseId = ''MATH201'', location = None \<rparr>] \<and>
   (\<forall>k. filter (\<lambda>c. timeToMinutes (startTime c) = k)
          [\<lparr> startTime = ''11:00'', endTime = ''12:30'', courseId = ''MATH201'', location = None \<rparr>,
           \<lparr> startTime = ''09:00'', endTime = ''10:30'', courseId = ''CS101'', location = None \<rparr>] =
        filter (\<lambda>c. timeToMinutes (startTime c) = k)
          [\<lparr> startTime = ''09:00'', endTime = ''10:30'', courseId = ''CS101'', location = None \<rparr>,
           \<lparr> startTime = ''11:00'', endTime = ''12:30'', courseId = ''MATH201'', location = None \<rparr>]) \<and>
   distinct (map (\<lambda>c. timeToMinutes (startTime c))
        [\<lparr> startTime = ''09:00'', endTime = ''10:30'', courseId = ''CS101'', location = None \<rparr>,
         \<lparr> startTime = ''11:00'', endTime = ''12:30'', courseId = ''MATH201'', location = None \<rparr>]) \<and>
   calculateTimeGaps
        [\<lparr> startTime = ''11:00'', endTime = ''12:30'', courseId = ''MATH201'', location = None \<rparr>,
         \<lparr> startTime = ''09:00'', endTime = ''10:30'', courseId = ''CS101'', location = None \<rparr>] =
   calculateTimeGaps
        [\<lparr> startTime = ''09:00'', endTime = ''10:30'', courseId = ''CS101'', location = None \<rparr>,
         \<lparr> startTime = ''11:00'', endTime = ''12:30'', courseId = ''MATH201'', location = None \<rparr>]"
proof -
  have perm: "mset [\<lparr> startTime = ''11:00'', endTime = ''12:30'', courseId = ''MATH201'', location = None \<rparr>,
         \<lparr> startTime = ''09:00'', endTime = ''10:30'', courseId = ''CS101'', location = None \<rparr>] =
   mset [\<lparr> startTime = ''09:00'', endTime = ''10:30'', courseId = ''CS101'', location = None \<rparr>,
         \<lparr> startTime = ''11:00'', endTime = ''12:30'', courseId = ''MATH201'', location = None \<rparr>]"
    by simp
  have keys: "distinct (map (\<lambda>c. timeToMinutes (startTime c))
        [\<lparr> startTime = ''09:00'', endTime = ''10:30'', courseId = ''CS101'', location = None \<rparr>,
         \<lparr> startTime = ''11:00'', endTime = ''12:30'', courseId = ''MATH201'', location = None \<rparr>])"
    by code_simp
  have ties: "\<forall>k. filter (\<lambda>c. timeToMinutes (startTime c) = k)
          [\<lparr> startTime = ''11:00'', endTime = ''12:30'', courseId = ''MATH201'', location = None \<rparr>,
           \<lparr> startTime = ''09:00'', endTime = ''10:30'', courseId = ''CS101'', location = None \<rparr>] =
        filter (\<lambda>c. timeToMinutes (startTime c) = k)
          [\<lparr> startTime = ''09:00'', endTime = ''10:30'', courseId = ''CS101'', location = None \<rparr>,
           \<lparr> startTime = ''11:00'', endTime = ''12:30'', courseId = ''MATH201'', location = None \<rparr>]"
    using distinct_keys_ties [OF perm keys] by blast
  from perm keys ties calculateTimeGaps_reordering
    [of "[\<lparr> startTime = ''11:00'', endTime = ''12:30'', courseId = ''MATH201'', location = None \<rparr>,
          \<lparr> startTime = ''09:00'', endTime = ''10:30'', courseId = ''CS101'', location = None \<rparr>]"
        "[\<lparr> startTime = ''09:00'', endTime = ''10:30'', courseId = ''CS101'', location = None \<rparr>,
          \<lparr> startTime = ''11:00'', endTime = ''12:30'', courseId = ''MATH201'', location = None \<rparr>]"]
  show ?thesis by blast
qed

text \<open>
  With two slots that start together the order of the input shows in the result: the
  stable sort keeps them as they came, and which of the two is next to the third slot
  decides whether a gap is reported.
\<close>

theorem calculateTimeGaps_ties_counterexample:
  "mset [\<lparr> startTime = ''09:00'', endTime = ''12:00'', courseId = ''B'', location = None \<rparr>,
         \<lparr> startTime = ''09:00'', endTime = ''10:00'', courseId = ''A'', location = None \<rparr>,
         \<lparr> startTime = ''11:00'', endTime = ''12:00'', courseId = ''C'', location = None \<rparr>] =
   mset [\<lparr> startTime = ''09:00'', endTime = ''10:00'', courseId = ''A'', location = None \<rparr>,
         \<lparr> startTime = ''09:00'', endTime = ''12:00'', courseId = ''B'', location = None \<rparr>,
         \<lparr> startTime = ''11:00'', endTime = ''12:00'', courseId = ''C'', location = None \<rparr>] \<and>
   calculateTimeGaps
        [\<lparr> startTime = ''09:00'', endTime = ''12:00'', courseId = ''B'', location = None \<rparr>,
         \<lparr> startTime = ''09:00'', endTime = ''10:00'', courseId = ''A'', location = None \<rparr>,
         \<lparr> startTime = ''11:00'', endTime = ''12:00'', courseId = ''C'', location = None \<rparr>] =
     [\<lparr> gap_start = ''10:00'', gap_end = ''11:00'', duration = 60 \<rparr>] \<and>
   calculateTimeGaps
        [\<lparr> startTime = ''09:00'', endTime = ''10:00'', courseId = ''A'', location = None \<rparr>,
         \<lparr> startTime = ''09:00'', endTime = ''12:00'', courseId = ''B'', location = None \<rparr>,
         \<lparr> startTime = ''11:00'', endTime = ''12:00'', courseId = ''C'', location = None \<rparr>] = []"
proof (intro conjI)
  show "mset [\<lparr> startTime = ''09:00'', endTime = ''12:00'', courseId = ''B'', location = None \<rparr>,
         \<lparr> startTime = ''09:00'', endTime = ''10:00'', courseId = ''A'', location = None \<rparr>,
         \<lparr> startTime = ''11:00'', endTime = ''12:00'', courseId = ''C'', location = None \<rparr>] =
   mset [\<lparr> startTime = ''09:00'', endTime = ''10:00'', courseId = ''A'', location = None \<rparr>,
         \<lparr> startTime = ''09:00'', endTime = ''12:00'', courseId = ''B'', location = None \<rparr>,
         \<lparr> startTime = ''11:00'', endTime = ''12:00'', courseId = ''C'', location = None \<rparr>]"
    by simp
  show "calculateTimeGaps
        [\<lparr> startTime = ''09:00'', endTime = ''12:00'', courseId = ''B'', location = None \<rparr>,
         \<lparr> startTime = ''09:00'', endTime = ''10:00'', courseId = ''A'', location = None \<rparr>,
         \<lparr> startTime = ''11:00'', endTime = ''12:00'', courseId = ''C'', location = None \<rparr>] =
     [\<lparr> gap_start = ''10:00'', gap_end = ''11:00'', duration = 60 \<rparr>]"
    by code_simp
  show "calculateTimeGaps
        [\<lparr> startTime = ''09:00'', endTime = ''10:00'', courseId = ''A'', location = None \<rparr>,
         \<lparr> startTime = ''09:00'', endTime = ''12:00'', courseId = ''B'', location = None \<rparr>,
         \<lparr> startTime = ''11:00'', endTime = ''12:00'', courseId = ''C'', location = None \<rparr>] = []"
    by code_simp
qed

section \<open>Properties of ScheduleOptimizer: score and selection\<close>

text \<open>
  C3 (as the code has it). For a selection that is not empty the day score is the
  formula of the specification evaluated in double arithmetic in the order of its
  terms, each subtraction and addition of a term that may not be an integer rounded to
  the nearest double, and then rounded to one decimal by \<open>Math.round(score * 10) / 10\<close>;
  for the empty selection it is 0.
\<close>

theorem calculateDayScore_formula:
  "(selection \<noteq> [] \<longrightarrow>
      calculateDayScore selection prefs mustAttend =
        round1 (dayScoreDouble selection prefs mustAttend)) \<and>
   calculateDayScore [] prefs mustAttend = 0"
  by (simp add: calculateDayScore_def dayScoreDouble_def Let_def mult.commute)

theorem calculateDayScore_formula_witness:
  "[wednesdayCS101, wednesdayMATH201] \<noteq> [] \<and>
   calculateDayScore [wednesdayCS101, wednesdayMATH201] examplePreferences [''CS101''] =
     round1 (dayScoreDouble [wednesdayCS101, wednesdayMATH201] examplePreferences [''CS101''])"
  using calculateDayScore_formula
    [of "[wednesdayCS101, wednesdayMATH201]" examplePreferences "[''CS101'']"]
  by simp

text \<open>
  The formula gives the empty selection the penalty for being below the minimum number
  of classes; the source returns 0 before any term is added. For two must-attend slots
  51 minutes apart under a gap limit of 30 minutes the formula gives 9.15; the source
  holds the double just below 9.15 before its last rounding and returns 9.1.
\<close>

theorem calculateDayScore_formula_counterexample:
  "calculateDayScore [] examplePreferences [] = 0 \<and>
   dayScoreFormula [] examplePreferences [] = - 30 \<and>
   calculateDayScore [earlySlot, lateSlot] strictPreferences [''A'', ''B''] = fl (91 / 10) \<and>
   dayScoreFormula [earlySlot, lateSlot] strictPreferences [''A'', ''B''] = 915 / 100 \<and>
   fl (91 / 10) \<noteq> 915 / 100"
proof (intro conjI)
  show "calculateDayScore [] examplePreferences [] = 0"
    by code_simp
  show "dayScoreFormula [] examplePreferences [] = - 30"
    by code_simp
  show "calculateDayScore [earlySlot, lateSlot] strictPreferences [''A'', ''B''] = fl (91 / 10)"
    by code_simp
  show "dayScoreFormula [earlySlot, lateSlot] strictPreferences [''A'', ''B''] = 915 / 100"
    by code_simp
  show "fl (91 / 10) \<noteq> 915 / 100"
    by code_simp
qed

lemma tryAdditions_chosen:
  "fst (tryAdditions prefs must sel cs best) = Some b \<Longrightarrow> fst best = Some b \<or> b \<in> set cs"
proof (induction cs arbitrary: best)
  case Nil
  then show ?case by simp
next
  case (Cons c cs)
  obtain a s where best: "best = (a, s)" by (cases best)
  from Cons.prems Cons.IH [of "if s < calculateDayScore (sel @ [c]) prefs must
      then (Some c, calculateDayScore (sel @ [c]) prefs must) else (a, s)"]
  show ?case
    by (auto simp: best Let_def split: if_splits)
qed

lemma greedyLoop_extends:
  "\<exists>added. fst (greedyLoop prefs must sel sc r remaining) = sel @ added \<and>
      set added \<subseteq> set remaining"
proof (induction prefs must sel sc r remaining rule: greedyLoop.induct)
  case (1 prefs must sel sc r remaining)
  show ?case
  proof (cases "remaining = []")
    case True
    then show ?thesis by (simp add: greedyLoop.simps)
  next
    case False
    obtain x y where t: "tryAdditions prefs must sel remaining (None, sc) = (x, y)"
      by (cases "tryAdditions prefs must sel remaining (None, sc)")
    show ?thesis
    proof (cases "\<exists>b. x = Some b \<and> sc < y")
      case True
      then obtain b where b: "x = Some b" "sc < y" by auto
      from "1.IH" [OF False t [symmetric] b(1) b(2) refl refl refl]
      obtain added where a: "fst (greedyLoop prefs must (sel @ [b]) y
          (r @ [if violatesGapLimit (violatesPreferences (sel @ [b]) prefs) \<or>
                   violatesMinimumClasses (violatesPreferences (sel @ [b]) prefs)
                then ''Added '' @ courseId b @ '' despite '' @
                     join '', '' (reasons (violatesPreferences (sel @ [b]) prefs))
                else ''Added optional class '' @ courseId b])
          (remove1 b remaining)) = (sel @ [b]) @ added"
          "set added \<subseteq> set (remove1 b remaining)"
        by blast
      have "b \<in> set remaining"
        using tryAdditions_chosen [of prefs must sel remaining "(None, sc)" b] t b(1) by simp
      then have member: "b \<in> set remaining" .
      have sub: "set added \<subseteq> set remaining"
        using a(2) set_remove1_subset [of b remaining] by blast
      have "fst (greedyLoop prefs must sel sc r remaining) = sel @ (b # added)"
        using False t b a(1) by (subst greedyLoop.simps) (simp add: Let_def)
      moreover have "set (b # added) \<subseteq> set remaining"
        using member sub by simp
      ultimately show ?thesis by blast
    next
      case False
      with \<open>remaining \<noteq> []\<close> t show ?thesis
        by (subst greedyLoop.simps) (auto split: option.splits)
    qed
  qed
qed

text \<open>
  C2. The selection returned by \<open>optimizeClassSelection\<close> starts with the day's
  must-attend classes, in their order, followed by optional classes that the loop
  added; so every class of the day whose course is in the must-attend list is selected.
\<close>

theorem optimizeClassSelection_keeps_mustAttend:
  "(\<exists>added.
      selectedClasses (optimizeClassSelection allDayClasses mustAttendClasses prefs) =
        filter (\<lambda>c. courseId c \<in> set mustAttendClasses) allDayClasses @ added \<and>
      set added \<subseteq> set (filter (\<lambda>c. courseId c \<notin> set mustAttendClasses) allDayClasses)) \<and>
   (\<forall>c \<in> set allDayClasses.
      courseId c \<in> set mustAttendClasses \<longrightarrow>
      c \<in> set (selectedClasses (optimizeClassSelection allDayClasses mustAttendClasses prefs)))"
proof -
  define mustAttend where
    "mustAttend = filter (\<lambda>c. courseId c \<in> set mustAttendClasses) allDayClasses"
  define optional where
    "optional = filter (\<lambda>c. courseId c \<notin> set mustAttendClasses) allDayClasses"
  define loop where
    "loop = greedyLoop prefs mustAttendClasses mustAttend
       (calculateDayScore mustAttend prefs mustAttendClasses)
       [''Including '' @ showNat (length mustAttend) @ '' required classes''] optional"
  have selected:
    "selectedClasses (optimizeClassSelection allDayClasses mustAttendClasses prefs) = fst loop"
    by (simp add: optimizeClassSelection_def Let_def case_prod_unfold loop_def mustAttend_def
        optional_def)
  obtain added where added: "fst loop = mustAttend @ added" "set added \<subseteq> set optional"
    unfolding loop_def using greedyLoop_extends by blast
  have first: "\<exists>added.
      selectedClasses (optimizeClassSelection allDayClasses mustAttendClasses prefs) =
        filter (\<lambda>c. courseId c \<in> set mustAttendClasses) allDayClasses @ added \<and>
      set added \<subseteq> set (filter (\<lambda>c. courseId c \<notin> set mustAttendClasses) allDayClasses)"
    using added selected unfolding mustAttend_def optional_def by metis
  have second: "\<forall>c \<in> set allDayClasses.
      courseId c \<in> set mustAttendClasses \<longrightarrow>
      c \<in> set (selectedClasses (optimizeClassSelection allDayClasses mustAttendClasses prefs))"
    using added(1) selected by (simp add: mustAttend_def)
  from first second show ?thesis ..
qed

theorem optimizeClassSelection_keeps_mustAttend_witness:
  "wednesdayCS101 \<in> set [wednesdayCS101, wednesdayMATH201] \<and>
   courseId wednesdayCS101 \<in> set [''CS101''] \<and>
   wednesdayCS101 \<in> set (selectedClasses
      (optimizeClassSelection [wednesdayCS101, wednesdayMATH201] [''CS101''] examplePreferences))"
  using optimizeClassSelection_keeps_mustAttend
    [of "[wednesdayCS101, wednesdayMATH201]" "[''CS101'']" examplePreferences]
  by (simp add: wednesdayCS101_def)

section \<open>Properties of CollegeDecisionEngine\<close>

lemma mustAttendStep_set:
  "set (mustAttendStep cs acc ct) =
     set acc \<union> {cid. cid = courseId ct \<and>
                    (\<exists>course. findCourse cs cid = Some course \<and> needsAttendance course)}"
  by (cases "findCourse cs (courseId ct)")
    (auto simp: mustAttendStep_def Let_def needsAttendance_def)

lemma foldl_mustAttendStep:
  "set (foldl (mustAttendStep cs) acc schedule) =
     set acc \<union>
     {cid. \<exists>ct course. ct \<in> set schedule \<and> courseId ct = cid \<and>
        findCourse cs cid = Some course \<and> needsAttendance course}"
proof (induction schedule arbitrary: acc)
  case Nil
  then show ?case by simp
next
  case (Cons ct schedule)
  have "set (foldl (mustAttendStep cs) acc (ct # schedule)) =
      set (mustAttendStep cs acc ct) \<union>
      {cid. \<exists>ct course. ct \<in> set schedule \<and> courseId ct = cid \<and>
        findCourse cs cid = Some course \<and> needsAttendance course}"
    by (simp add: Cons.IH)
  also have "\<dots> = set acc \<union>
     {cid. \<exists>ct' course. ct' \<in> set (ct # schedule) \<and> courseId ct' = cid \<and>
        findCourse cs cid = Some course \<and> needsAttendance course}"
    unfolding mustAttendStep_set by auto
  finally show ?case .
qed

lemma shouldGoToCollege_decision:
  assumes "dayClasses \<noteq> []"
  shows "decision_shouldGo (shouldGoToCollege dayClasses must prefs) =
     (if filter (\<lambda>c. courseId c \<in> set must) dayClasses \<noteq> [] then True
      else minimumClassesPerDay prefs
             \<le> int (length (selectedClasses (optimizeClassSelection dayClasses must prefs))) \<and>
           maxDuration (calculateTimeGaps
               (selectedClasses (optimizeClassSelection dayClasses must prefs)))
             \<le> maxGapBetweenClasses prefs)"
  using assms
  by (auto simp: shouldGoToCollege_def Let_def violatesPreferences_def)

text \<open>
  C1. For a valid date whose resolved schedule is not empty, \<open>analyzeDay\<close> returns an
  analysis. A course id is in the must-attend list exactly when a scheduled class has
  it and the course found under it is below its required percentage, or has no class
  left to skip, or is at risk. The decision is go when the must-attend list is not
  empty; otherwise it is go exactly when the optimized selection has at least
  \<open>minimumClassesPerDay\<close> classes and its largest gap is at most
  \<open>maxGapBetweenClasses\<close>.
\<close>

theorem analyzeDay_decision:
  assumes schedule: "getScheduleForDate getDay dm date = Inr scheduled"
    and nonempty: "scheduled \<noteq> []"
    and valid: "getDay date \<noteq> None"
  shows "\<exists>ctx analysis.
      buildDecisionContext getDay dm date = Inr ctx \<and>
      analyzeDay getDay dm date = Inr analysis \<and>
      (\<forall>cid. cid \<in> set (findMustAttendClasses ctx) \<longleftrightarrow>
         (\<exists>ct course. ct \<in> set scheduled \<and> courseId ct = cid \<and>
            findCourse (courses dm) cid = Some course \<and>
            (currentPercentage (calculateAttendanceStatus course)
               < requiredAttendancePercentage course \<or>
             canSkip (calculateAttendanceStatus course) = 0 \<or>
             isAtRisk (calculateAttendanceStatus course)))) \<and>
      shouldGo analysis =
        (if findMustAttendClasses ctx \<noteq> [] then True
         else minimumClassesPerDay (preferences dm)
                \<le> int (length (selectedClasses
                     (optimizeClassSelection scheduled (findMustAttendClasses ctx)
                        (preferences dm)))) \<and>
              maxDuration (calculateTimeGaps (selectedClasses
                     (optimizeClassSelection scheduled (findMustAttendClasses ctx)
                        (preferences dm))))
                \<le> maxGapBetweenClasses (preferences dm))"
proof -
  define ctx where "ctx =
     \<lparr> context_date = date, context_courses = getAllCourses dm, daySchedule = scheduled,
       attendanceStatuses = getAttendanceSummary (getAllCourses dm),
       context_preferences = getPreferences dm \<rparr>"
  have built: "buildDecisionContext getDay dm date = Inr ctx"
    using schedule valid by (simp add: buildDecisionContext_def ctx_def)
  have members: "cid \<in> set (findMustAttendClasses ctx) \<longleftrightarrow>
         (\<exists>ct course. ct \<in> set scheduled \<and> courseId ct = cid \<and>
            findCourse (courses dm) cid = Some course \<and>
            (currentPercentage (calculateAttendanceStatus course)
               < requiredAttendancePercentage course \<or>
             canSkip (calculateAttendanceStatus course) = 0 \<or>
             isAtRisk (calculateAttendanceStatus course)))" for cid
    unfolding findMustAttendClasses_def foldl_mustAttendStep needsAttendance_def
    by (auto simp: ctx_def getAllCourses_def)
  have some: "findMustAttendClasses ctx \<noteq> [] \<longleftrightarrow>
      filter (\<lambda>c. courseId c \<in> set (findMustAttendClasses ctx)) scheduled \<noteq> []"
  proof
    assume "findMustAttendClasses ctx \<noteq> []"
    then obtain cid where "cid \<in> set (findMustAttendClasses ctx)"
      by (cases "findMustAttendClasses ctx") auto
    with members [of cid] show
      "filter (\<lambda>c. courseId c \<in> set (findMustAttendClasses ctx)) scheduled \<noteq> []"
      by (auto simp: filter_empty_conv)
  next
    assume "filter (\<lambda>c. courseId c \<in> set (findMustAttendClasses ctx)) scheduled \<noteq> []"
    then show "findMustAttendClasses ctx \<noteq> []"
      by (auto simp: filter_empty_conv)
  qed
  define analysis where "analysis =
     \<lparr> analysis_date = date, scheduledClasses = scheduled,
       shouldGo = decision_shouldGo (shouldGoToCollege scheduled (findMustAttendClasses ctx)
                    (context_preferences ctx)),
       recommendedClasses = map courseId (selectedClasses (optimizeClassSelection scheduled
                    (findMustAttendClasses ctx) (context_preferences ctx))),
       reasoning = buildReasoning
          (shouldGoToCollege scheduled (findMustAttendClasses ctx)
             (context_preferences ctx))
          (optimizeClassSelection scheduled (findMustAttendClasses ctx)
             (context_preferences ctx))
          (calculateAttendanceImpact scheduled ctx) ctx,
       timeGaps = calculateTimeGaps (selectedClasses (optimizeClassSelection scheduled
                    (findMustAttendClasses ctx) (context_preferences ctx))),
       attendanceImpact = calculateAttendanceImpact scheduled ctx \<rparr>"
  have run: "analyzeDay getDay dm date = Inr analysis"
    using schedule nonempty built by (simp add: analyzeDay_def analysis_def Let_def)
  have prefs: "context_preferences ctx = preferences dm"
    by (simp add: ctx_def getPreferences_def)
  have go: "shouldGo analysis =
        (if findMustAttendClasses ctx \<noteq> [] then True
         else minimumClassesPerDay (preferences dm)
                \<le> int (length (selectedClasses
                     (optimizeClassSelection scheduled (findMustAttendClasses ctx)
                        (preferences dm)))) \<and>
              maxDuration (calculateTimeGaps (selectedClasses
                     (optimizeClassSelection scheduled (findMustAttendClasses ctx)
                        (preferences dm))))
                \<le> maxGapBetweenClasses (preferences dm))"
    unfolding some
    by (simp add: analysis_def prefs shouldGoToCollege_decision [OF nonempty])
  from built run members go show ?thesis by blast
qed

theorem analyzeDay_decision_witness:
  "getScheduleForDate exampleCalendar exampleManager ''2024-01-17'' =
     Inr [wednesdayCS101, wednesdayMATH201] \<and>
   [wednesdayCS101, wednesdayMATH201] \<noteq> [] \<and>
   exampleCalendar ''2024-01-17'' \<noteq> None \<and>
   (\<exists>ctx analysis.
      buildDecisionContext exampleCalendar exampleManager ''2024-01-17'' = Inr ctx \<and>
      analyzeDay exampleCalendar exampleManager ''2024-01-17'' = Inr analysis)"
proof -
  have schedule: "getScheduleForDate exampleCalendar exampleManager ''2024-01-17'' =
      Inr [wednesdayCS101, wednesdayMATH201]"
    by (simp add: getScheduleForDate_def getScheduleOverride_def getDayOfWeek_def
        getDaySchedule_def toLowerCase_def exampleCalendar_def exampleManager_def)
  have nonempty: "[wednesdayCS101, wednesdayMATH201] \<noteq> []"
    by simp
  have valid: "exampleCalendar ''2024-01-17'' \<noteq> None"
    by (simp add: exampleCalendar_def)
  from analyzeDay_decision [OF schedule nonempty valid] schedule nonempty valid
  show ?thesis by blast
qed

text \<open>
  A date string that the runtime does not parse makes \<open>analyzeDay\<close> raise: a
  \<open>TypeError\<close> from the weekday lookup when the date has no override, a \<open>RangeError\<close>
  from the look-ahead when it has one. The two theorems about \<open>analyzeDay\<close> are stated
  for dates that the runtime parses.
\<close>

lemma analyzeDay_invalid_date:
  assumes "getDay date = None"
  shows "analyzeDay getDay dm date =
     (case getScheduleOverride dm date of None \<Rightarrow> Inl TypeError | Some ov \<Rightarrow> Inl RangeError)"
  using assms
  by (simp add: analyzeDay_def buildDecisionContext_def getScheduleForDate_def
      getDayOfWeek_def split: option.splits)

text \<open>
  C6. For a valid date whose resolved schedule is empty, \<open>analyzeDay\<close> returns the
  no-go analysis with no recommended class, no gap and the single reasoning line
  \<open>No classes scheduled for this day\<close>, and the confidence derived from it is 100. An
  override without classes makes the resolved schedule empty whatever the weekly
  schedule holds for that weekday.
\<close>

theorem analyzeDay_no_classes:
  assumes valid: "getDay date \<noteq> None"
  shows "(getScheduleForDate getDay dm date = Inr [] \<longrightarrow>
           analyzeDay getDay dm date =
             Inr \<lparr> analysis_date = date, scheduledClasses = [], shouldGo = False,
                   recommendedClasses = [],
                   reasoning = [''No classes scheduled for this day''],
                   timeGaps = [], attendanceImpact = [] \<rparr> \<and>
           calculateConfidenceScore
                 \<lparr> analysis_date = date, scheduledClasses = [], shouldGo = False,
                   recommendedClasses = [],
                   reasoning = [''No classes scheduled for this day''],
                   timeGaps = [], attendanceImpact = [] \<rparr> = 100) \<and>
         (\<forall>ov. getScheduleOverride dm date = Some ov \<and> classes ov = [] \<longrightarrow>
            getScheduleForDate getDay dm date = Inr [])"
  using valid
  by (auto simp: analyzeDay_def buildDecisionContext_def calculateConfidenceScore_def
      getScheduleForDate_def)

theorem analyzeDay_no_classes_witness:
  "exampleCalendar ''2024-01-20'' \<noteq> None \<and>
   getScheduleOverride exampleManager ''2024-01-20'' =
     Some \<lparr> override_date = ''2024-01-20'', classes = [],
            reason = Some ''Martin Luther King Jr. Day - No classes'' \<rparr> \<and>
   getScheduleForDate exampleCalendar exampleManager ''2024-01-20'' = Inr [] \<and>
   analyzeDay exampleCalendar exampleManager ''2024-01-20'' =
     Inr \<lparr> analysis_date = ''2024-01-20'', scheduledClasses = [], shouldGo = False,
               recommendedClasses = [],
               reasoning = [''No classes scheduled for this day''],
               timeGaps = [], attendanceImpact = [] \<rparr> \<and>
   calculateConfidenceScore
         \<lparr> analysis_date = ''2024-01-20'', scheduledClasses = [], shouldGo = False,
               recommendedClasses = [],
               reasoning = [''No classes scheduled for this day''],
               timeGaps = [], attendanceImpact = [] \<rparr> = 100"
proof -
  have valid: "exampleCalendar ''2024-01-20'' \<noteq> None"
    by (simp add: exampleCalendar_def)
  have override: "getScheduleOverride exampleManager ''2024-01-20'' =
     Some \<lparr> override_date = ''2024-01-20'', classes = [],
            reason = Some ''Martin Luther King Jr. Day - No classes'' \<rparr>"
    by (simp add: getScheduleOverride_def exampleManager_def)
  from analyzeDay_no_classes [of exampleCalendar "''2024-01-20''" exampleManager]
    valid override
  show ?thesis by simp
qed





lemma getCourse_id: "getCourse dm cid = Some course \<Longrightarrow> id' course = cid"
  unfolding getCourse_def by (induction "courses dm") (auto simp: find_Some_iff)

lemma simulateStep_result:
  "simulateStep ids (dm, result) ct =
     (dm, case getCourse dm (courseId ct) of
            None \<Rightarrow> result
          | Some course \<Rightarrow> AList.update (courseId ct) (simulated ids course) result)"
proof (cases "getCourse dm (courseId ct)")
  case None
  then show ?thesis by (simp add: simulateStep_def)
next
  case (Some course)
  then have "id' course = courseId ct" by (rule getCourse_id)
  with Some show ?thesis
    by (simp add: simulateStep_def Let_def simulated_def hypotheticalPercentage_def)
qed

lemma simulate_loop:
  "fst (foldl (simulateStep ids) (dm, result) dayClasses) = dm \<and>
   map_of (snd (foldl (simulateStep ids) (dm, result) dayClasses)) cid =
     (if cid \<in> courseId ` set dayClasses
      then (case getCourse dm cid of
              None \<Rightarrow> map_of result cid
            | Some course \<Rightarrow> Some (simulated ids course))
      else map_of result cid)"
proof (induction dayClasses arbitrary: result)
  case Nil
  then show ?case by simp
next
  case (Cons ct dayClasses)
  show ?case
  proof (cases "getCourse dm (courseId ct)")
    case None
    then show ?thesis
      using Cons.IH [of result] by (auto simp: simulateStep_result)
  next
    case (Some course)
    then show ?thesis
      using Cons.IH [of "AList.update (courseId ct) (simulated ids course) result"]
      by (auto simp: simulateStep_result update_conv split: option.splits)
  qed
qed

text \<open>
  C9 (as the code has it). \<open>simulateAttendanceDecision\<close> returns the data manager it was
  given. When the date has a schedule, its result has an entry exactly for the scheduled
  course ids that the data manager knows. The hypothetical percentage of a course is
  computed in double arithmetic: \<open>classesAttended + 1\<close> when the course id is among the
  attended ones and \<open>classesAttended\<close> otherwise, divided by \<open>held + 1\<close> with
  \<open>held = totalClassesScheduled - classesCancelled\<close>, the quotient rounded to the nearest
  double, times 100, rounded again. The entry of the course reports that double rounded
  to two decimals, with the verdict \<open>critical\<close> when the double is below the required
  percentage, \<open>warning\<close> when it is below the required percentage plus 5, and \<open>safe\<close>
  otherwise.
\<close>

theorem simulateAttendanceDecision_projection:
  "snd (simulateAttendanceDecision getDay dm date ids) = dm \<and>
   (getScheduleForDate getDay dm date = Inr dayClasses \<longrightarrow>
      (\<exists>result. fst (simulateAttendanceDecision getDay dm date ids) = Inr result \<and>
         (\<forall>cid. map_of result cid =
            (if cid \<in> courseId ` set dayClasses
             then map_option (simulated ids) (getCourse dm cid)
             else None)))) \<and>
   (totalClassesScheduled course - classesCancelled course + 1 \<noteq> 0 \<longrightarrow>
      hypotheticalPercentage ids course =
        Num (fl (fl (of_int (classesAttended course + (if id' course \<in> set ids then 1 else 0)) /
                     of_int (totalClassesScheduled course - classesCancelled course + 1))
                 * 100)))"
proof (intro conjI impI)
  show "snd (simulateAttendanceDecision getDay dm date ids) = dm"
  proof (cases "getScheduleForDate getDay dm date")
    case (Inl e)
    then show ?thesis by (simp add: simulateAttendanceDecision_def)
  next
    case (Inr scheduled)
    then show ?thesis
      using simulate_loop [of ids dm "[]" scheduled]
      by (simp add: simulateAttendanceDecision_def case_prod_unfold Let_def)
  qed
next
  assume schedule: "getScheduleForDate getDay dm date = Inr dayClasses"
  have "fst (simulateAttendanceDecision getDay dm date ids) =
      Inr (snd (foldl (simulateStep ids) (dm, []) dayClasses))"
    using schedule by (simp add: simulateAttendanceDecision_def case_prod_unfold Let_def)
  moreover have "map_of (snd (foldl (simulateStep ids) (dm, []) dayClasses)) cid =
            (if cid \<in> courseId ` set dayClasses
             then map_option (simulated ids) (getCourse dm cid)
             else None)" for cid
    using simulate_loop [of ids dm "[]" dayClasses cid]
    by (cases "getCourse dm cid") simp_all
  ultimately show "\<exists>result. fst (simulateAttendanceDecision getDay dm date ids) = Inr result \<and>
         (\<forall>cid. map_of result cid =
            (if cid \<in> courseId ` set dayClasses
             then map_option (simulated ids) (getCourse dm cid)
             else None))"
    by blast
next
  assume "totalClassesScheduled course - classesCancelled course + 1 \<noteq> 0"
  then show "hypotheticalPercentage ids course =
        Num (fl (fl (of_int (classesAttended course + (if id' course \<in> set ids then 1 else 0)) /
                     of_int (totalClassesScheduled course - classesCancelled course + 1))
                 * 100))"
    by (simp add: hypotheticalPercentage_def js_div_def)
qed

theorem simulateAttendanceDecision_projection_witness:
  "getScheduleForDate exampleCalendar exampleManager ''2024-01-15'' =
     Inr [rescheduledCS101, rescheduledMATH201] \<and>
   totalClassesScheduled cs101 - classesCancelled cs101 + 1 \<noteq> 0 \<and>
   snd (simulateAttendanceDecision exampleCalendar exampleManager ''2024-01-15'' [''CS101'']) =
     exampleManager \<and>
   (\<exists>result.
      fst (simulateAttendanceDecision exampleCalendar exampleManager ''2024-01-15'' [''CS101'']) =
        Inr result \<and>
      map_of result ''CS101'' = Some (simulated [''CS101''] cs101)) \<and>
   hypotheticalPercentage [''CS101''] cs101 = Num (fl (fl (43 / 58) * 100))"
proof -
  have schedule: "getScheduleForDate exampleCalendar exampleManager ''2024-01-15'' =
     Inr [rescheduledCS101, rescheduledMATH201]"
    by (simp add: getScheduleForDate_def getScheduleOverride_def exampleManager_def)
  have held: "totalClassesScheduled cs101 - classesCancelled cs101 + 1 \<noteq> 0"
    by (simp add: cs101_def)
  have course: "getCourse exampleManager ''CS101'' = Some cs101"
    by (simp add: getCourse_def exampleManager_def cs101_def)
  have scheduled: "''CS101'' \<in> courseId ` set [rescheduledCS101, rescheduledMATH201]"
    by (simp add: rescheduledCS101_def)
  from simulateAttendanceDecision_projection
    [of exampleCalendar exampleManager "''2024-01-15''" "[''CS101'']"
        "[rescheduledCS101, rescheduledMATH201]" cs101]
    schedule held course scheduled
  show ?thesis
    by (auto simp: cs101_def)
qed

text \<open>
  A course that requires 58 percent, with 28 of 49 held classes attended, simulated as
  attended: the percentage of the specification is \<open>29 / 50 * 100 = 58\<close>, which is not
  below 58, so that its verdict is \<open>warning\<close>. The source holds the double just below 58,
  answers \<open>critical\<close>, and reports the percentage 58.
\<close>

theorem simulateAttendanceDecision_verdict_counterexample:
  "fst (simulateAttendanceDecision exampleCalendar boundaryManager ''2024-01-17'' [''ECON58'']) =
     Inr [(''ECON58'', \<lparr> newPercentage = Num 58, impact = ''critical'' \<rparr>)] \<and>
   getCourse boundaryManager ''ECON58'' = Some econ58 \<and>
   requiredAttendancePercentage econ58 = 58 \<and>
   hypotheticalFormula [''ECON58''] econ58 = 58 \<and>
   verdictFormula [''ECON58''] econ58 = ''warning''"
proof (intro conjI)
  show "fst (simulateAttendanceDecision exampleCalendar boundaryManager ''2024-01-17''
          [''ECON58'']) =
     Inr [(''ECON58'', \<lparr> newPercentage = Num 58, impact = ''critical'' \<rparr>)]"
    by code_simp
  show "getCourse boundaryManager ''ECON58'' = Some econ58"
    by code_simp
  show "requiredAttendancePercentage econ58 = 58"
    by code_simp
  show "hypotheticalFormula [''ECON58''] econ58 = 58"
    by code_simp
  show "verdictFormula [''ECON58''] econ58 = ''warning''"
    by code_simp
qed

end
